theory Spec2Isabelle
  imports Complex_Main "HOL-Library.AList"
begin

section \<open>The model component of the engine: data model\<close>

text \<open>
  The development embeds \<^verbatim>\<open>pc.ModelComponent\<close> (the 844-line component source).
  One component is modelled together with the collaborators it talks to: its owning entity,
  the render scene, the asset catalog (\<^verbatim>\<open>this.system.app.assets\<close>) and the store of
  model objects. Every mutation of the source is an explicit update of the \<open>world\<close> record.

  Resources (models and materials) are opaque handles. A handle that is used as a model is
  looked up in the store \<open>models\<close>. A mesh instance is identified by the model that holds it
  and its index in \<^verbatim>\<open>model.meshInstances\<close>: none of the embedded operations replaces that
  array. JavaScript numbers that the source uses as identifiers are \<open>int\<close>; the numbers of
  \<^verbatim>\<open>_area\<close> are \<open>real\<close> (rounding to binary64 is not modelled). The fields
  \<^verbatim>\<open>_castShadowsLightmap\<close>, \<^verbatim>\<open>_lightmapSizeMultiplier\<close> and the debug-only
  \<^verbatim>\<open>_batchGroup\<close> are plain stores that no embedded operation reads, and are left out.
\<close>

type_synonym handle = nat
type_synonym node = nat
type_synonym mesh_ref = "handle \<times> nat"

text \<open>A resource reference as the source receives it: a numeric identifier or a string.\<close>

datatype idOrPath = Id int | Path string

text \<open>An event name \<^verbatim>\<open>event + ':' + id\<close>, kept as the pair it is concatenated from.\<close>

datatype evname = Ev string idOrPath

text \<open>
  The functions that the component registers as event handlers. The first nine are methods
  of the component (one function object each). The last three are the function expressions
  inside \<^verbatim>\<open>_loadAndSetMeshInstanceMaterial\<close>: each evaluation creates a new function
  object, numbered by the counter \<open>next_fn\<close>; the other arguments are the variables
  (\<^verbatim>\<open>meshInstance\<close>, \<^verbatim>\<open>index\<close>) the closure captures.
\<close>

datatype handler =
    OnModelAsset
  | OnAssetLoad
  | OnAssetUnload
  | OnAssetChange
  | OnAssetRemove
  | OnMaterialAssetAdd
  | OnMaterialAssetLoad
  | OnMaterialAssetUnload
  | OnMaterialAssetRemove
  | HandleMaterial nat mesh_ref nat
  | LoadedMaterial nat mesh_ref nat
  | RemovedMaterial nat mesh_ref

datatype mesh = Box | Capsule | Sphere | Cone | Cylinder | Plane | Mesh nat

datatype mask = MASK_DYNAMIC | MASK_BAKED

record mesh_instance =
  mi_node :: node
  mi_mesh :: mesh
  material :: "handle option"
  castShadow :: bool
  receiveShadow :: bool
  isStatic :: bool
  visible :: bool
  mi_mask :: mask
  mi_parameters :: "string list"
  mi_shaderDef_LM :: bool

record model_obj =
  meshInstances :: "mesh_instance list"
  graph :: node
  m_entity :: bool
  destroyed :: nat

record mapentry =
  am_material :: "int option"
  am_path :: "string option"

record asset =
  a_id :: int
  a_resource :: "handle option"
  a_url :: string
  a_mapping :: "mapentry option list option"

text \<open>The value given to the \<^verbatim>\<open>asset\<close> and \<^verbatim>\<open>materialAsset\<close> properties (\<open>None\<close> is null).\<close>

datatype assetref = AssetId int | AssetObj asset

record area =
  area_x :: real
  area_y :: real
  area_z :: real
  area_uv :: real

type_synonym mapping = "nat \<Rightarrow> idOrPath option option"
type_synonym ledger = "(evname \<times> idOrPath \<times> handler) list option list"

record component =
  c_enabled :: bool
  c_type :: string
  c_asset :: "int option"
  c_castShadows :: bool
  c_receiveShadows :: bool
  c_materialAsset :: "assetref option"
  c_mapping :: "mapping option"
  c_lightmapped :: bool
  c_isStatic :: bool
  c_batchGroupId :: int
  c_material :: "handle option"
  c_model :: "handle option"
  c_assetOld :: int
  c_materialEvents :: "ledger option"
  c_dirtyModelAsset :: bool
  c_dirtyMaterialAsset :: bool
  c_clonedModel :: bool
  c_area :: "area option"

record subscription =
  s_name :: evname
  s_handler :: handler
  s_once :: bool

record catalog =
  entries :: "asset list"
  callbacks :: "subscription list"
  asset_callbacks :: "(int \<times> string \<times> handler) list"
  load_requests :: "int list"
  delivered :: "(evname \<times> handler) list"

datatype scene_call =
    AddModel "handle option"
  | RemoveModel handle
  | AddShadowCaster handle
  | RemoveShadowCaster handle

record scene =
  sc_models :: "handle set"
  sc_shadowCasters :: "handle set"
  sc_calls :: "scene_call list"

record entity =
  e_enabled :: bool
  e_children :: "node set"
  e_animation :: bool
  e_animation_model :: "handle option"

record world =
  self :: component
  scene :: scene
  assets :: catalog
  entity :: entity
  models :: "handle \<Rightarrow> model_obj"
  next_handle :: nat
  next_node :: nat
  next_fn :: nat


section \<open>Collaborators\<close>

text \<open>
  The scene, the entity, the asset catalog with its event dispatch, \<^verbatim>\<open>pc.Model\<close> and
  \<^verbatim>\<open>pc.path\<close> are not part of the component source. Their operations are modelled from
  the specification's collaborator contracts, each under a comment that says so.
\<close>

text \<open>Modelled from the spec: the process-wide default material
  (\<^verbatim>\<open>pc.ModelHandler.DEFAULT_MATERIAL\<close>, a constant declared outside the component source),
  an opaque resource handle.\<close>

definition DEFAULT_MATERIAL :: handle where
  "DEFAULT_MATERIAL = 0"

subsection \<open>Scene\<close>

text \<open>Modelled from the spec: the scene's membership operations (\<^verbatim>\<open>pc.Scene\<close> is
  missing). They are idempotent operations on a draw set and a shadow-caster set, keyed by
  instance identity; adding a model to the draw set also adds it to the shadow-caster set when
  one of its sub-meshes casts shadows, removing it removes it from both. The spec does not
  say what \<^verbatim>\<open>addModel(null)\<close> does: the call is recorded and the sets are left as they
  are. \<open>sc_calls\<close> records every mutating call in order.\<close>

definition containsModel :: "handle \<Rightarrow> world \<Rightarrow> bool" where
  "containsModel m w = (m \<in> sc_models (scene w))"

definition addModel :: "handle option \<Rightarrow> world \<Rightarrow> world" where
  "addModel mo w =
    (let s = (scene w)\<lparr>sc_calls := sc_calls (scene w) @ [AddModel mo]\<rparr> in
     case mo of
       None \<Rightarrow> w\<lparr>scene := s\<rparr>
     | Some m \<Rightarrow>
         w\<lparr>scene := s\<lparr>sc_models := insert m (sc_models s),
               sc_shadowCasters :=
                 (if list_ex castShadow (meshInstances (models w m))
                  then insert m (sc_shadowCasters s) else sc_shadowCasters s)\<rparr>\<rparr>)"

definition removeModel :: "handle \<Rightarrow> world \<Rightarrow> world" where
  "removeModel m w =
    w\<lparr>scene := (scene w)\<lparr>sc_models := sc_models (scene w) - {m},
          sc_shadowCasters := sc_shadowCasters (scene w) - {m},
          sc_calls := sc_calls (scene w) @ [RemoveModel m]\<rparr>\<rparr>"

definition addShadowCaster :: "handle \<Rightarrow> world \<Rightarrow> world" where
  "addShadowCaster m w =
    w\<lparr>scene := (scene w)\<lparr>sc_shadowCasters := insert m (sc_shadowCasters (scene w)),
          sc_calls := sc_calls (scene w) @ [AddShadowCaster m]\<rparr>\<rparr>"

definition removeShadowCaster :: "handle \<Rightarrow> world \<Rightarrow> world" where
  "removeShadowCaster m w =
    w\<lparr>scene := (scene w)\<lparr>sc_shadowCasters := sc_shadowCasters (scene w) - {m},
          sc_calls := sc_calls (scene w) @ [RemoveShadowCaster m]\<rparr>\<rparr>"

subsection \<open>Entity\<close>

text \<open>Modelled from the spec: the owning entity (\<^verbatim>\<open>pc.Entity\<close> is missing) exposes its
  enabled state, \<^verbatim>\<open>addChild\<close>/\<^verbatim>\<open>removeChild\<close> on its transform graph and an optional
  animation collaborator that is told the bound model through \<^verbatim>\<open>setModel\<close>.\<close>

definition addChild :: "node \<Rightarrow> world \<Rightarrow> world" where
  "addChild n w = w\<lparr>entity := (entity w)\<lparr>e_children := insert n (e_children (entity w))\<rparr>\<rparr>"

definition removeChild :: "node \<Rightarrow> world \<Rightarrow> world" where
  "removeChild n w = w\<lparr>entity := (entity w)\<lparr>e_children := e_children (entity w) - {n}\<rparr>\<rparr>"

definition animation_setModel :: "handle \<Rightarrow> world \<Rightarrow> world" where
  "animation_setModel m w = w\<lparr>entity := (entity w)\<lparr>e_animation_model := Some m\<rparr>\<rparr>"

subsection \<open>Model objects\<close>

definition update_mesh :: "mesh_ref \<Rightarrow> (mesh_instance \<Rightarrow> mesh_instance) \<Rightarrow> world \<Rightarrow> world" where
  "update_mesh mi f w =
    (let r = fst mi; i = snd mi; ms = meshInstances (models w r) in
     w\<lparr>models := (models w)(r := (models w r)\<lparr>meshInstances := ms[i := f (ms ! i)]\<rparr>)\<rparr>)"

text \<open>A loop \<^verbatim>\<open>for (i = 0; i < meshInstances.length; i++) meshInstances[i].x = v\<close>.\<close>

definition update_meshes :: "handle \<Rightarrow> (mesh_instance \<Rightarrow> mesh_instance) \<Rightarrow> world \<Rightarrow> world" where
  "update_meshes r f w =
    w\<lparr>models := (models w)(r := (models w r)\<lparr>meshInstances := map f (meshInstances (models w r))\<rparr>)\<rparr>"

text \<open>Modelled from the spec: \<^verbatim>\<open>pc.Model\<close> is missing. \<^verbatim>\<open>clone\<close> duplicates a shared
  catalog resource into a new instance with its own graph root; \<^verbatim>\<open>destroy\<close> is counted
  on the instance.\<close>

definition model_clone :: "handle \<Rightarrow> world \<Rightarrow> world" where
  "model_clone r w =
    w\<lparr>models := (models w)(next_handle w :=
          \<lparr>meshInstances = meshInstances (models w r), graph = next_node w,
           m_entity = False, destroyed = 0\<rparr>),
      next_handle := Suc (next_handle w),
      next_node := Suc (next_node w)\<rparr>"

definition model_destroy :: "handle \<Rightarrow> world \<Rightarrow> world" where
  "model_destroy r w =
    w\<lparr>models := (models w)(r := (models w r)\<lparr>destroyed := Suc (destroyed (models w r))\<rparr>)\<rparr>"

definition set__entity :: "handle \<Rightarrow> bool \<Rightarrow> world \<Rightarrow> world" where
  "set__entity r b w = w\<lparr>models := (models w)(r := (models w r)\<lparr>m_entity := b\<rparr>)\<rparr>"

subsection \<open>Asset catalog\<close>

text \<open>Modelled from the spec: the resource catalog (\<^verbatim>\<open>pc.AssetRegistry\<close> and
  \<^verbatim>\<open>pc.events\<close> are missing). Entries are keyed by numeric identifier; \<^verbatim>\<open>get\<close>
  under a string key finds the entry whose identifier the string is the decimal form of
  (a JavaScript property key), and nothing otherwise. \<^verbatim>\<open>load\<close> is asynchronous: the request is recorded
  and events follow on a later turn. \<^verbatim>\<open>on\<close> appends a subscription, \<^verbatim>\<open>once\<close> one
  that is dropped when it is delivered, \<^verbatim>\<open>off\<close> drops every subscription of the given
  function under the given name. Subscriptions on a single entry (\<^verbatim>\<open>asset.on\<close>) are
  kept in \<open>asset_callbacks\<close> under the entry's identifier.\<close>

definition js_digit_value :: "char \<Rightarrow> nat option" where
  "js_digit_value =
    map_of [(CHR ''0'', 0), (CHR ''1'', 1), (CHR ''2'', 2), (CHR ''3'', 3), (CHR ''4'', 4),
            (CHR ''5'', 5), (CHR ''6'', 6), (CHR ''7'', 7), (CHR ''8'', 8), (CHR ''9'', 9)]"

fun decimal_value :: "string \<Rightarrow> nat \<Rightarrow> nat option" where
  "decimal_value [] acc = Some acc"
| "decimal_value (c # cs) acc =
     (case js_digit_value c of
        None \<Rightarrow> None
      | Some d \<Rightarrow> decimal_value cs (10 * acc + d))"

text \<open>The integer that a string is the decimal form of: \<^verbatim>\<open>0\<close>, or an optional minus
  sign and digits that do not start with 0.\<close>

definition js_number_key :: "string \<Rightarrow> int option" where
  "js_number_key s =
    (case s of
       [] \<Rightarrow> None
     | c # cs \<Rightarrow>
         if c = CHR ''-'' then
           (case cs of
              [] \<Rightarrow> None
            | d # ds \<Rightarrow>
                if d = CHR ''0'' then None
                else map_option (\<lambda>n. - int n) (decimal_value cs 0))
         else if c = CHR ''0'' then (if cs = [] then Some 0 else None)
         else map_option int (decimal_value s 0))"

definition assets_get :: "idOrPath \<Rightarrow> world \<Rightarrow> asset option" where
  "assets_get k w =
    (case k of
       Id n \<Rightarrow> find (\<lambda>a. a_id a = n) (entries (assets w))
     | Path s \<Rightarrow>
         (case js_number_key s of
            None \<Rightarrow> None
          | Some n \<Rightarrow> find (\<lambda>a. a_id a = n) (entries (assets w))))"

definition getByUrl :: "string \<Rightarrow> world \<Rightarrow> asset option" where
  "getByUrl url w = find (\<lambda>a. a_url a = url) (entries (assets w))"

definition assets_load :: "asset \<Rightarrow> world \<Rightarrow> world" where
  "assets_load a w =
    w\<lparr>assets := (assets w)\<lparr>load_requests := load_requests (assets w) @ [a_id a]\<rparr>\<rparr>"

definition assets_on :: "evname \<Rightarrow> handler \<Rightarrow> world \<Rightarrow> world" where
  "assets_on name h w =
    w\<lparr>assets := (assets w)\<lparr>callbacks := callbacks (assets w) @
        [\<lparr>s_name = name, s_handler = h, s_once = False\<rparr>]\<rparr>\<rparr>"

definition assets_once :: "evname \<Rightarrow> handler \<Rightarrow> world \<Rightarrow> world" where
  "assets_once name h w =
    w\<lparr>assets := (assets w)\<lparr>callbacks := callbacks (assets w) @
        [\<lparr>s_name = name, s_handler = h, s_once = True\<rparr>]\<rparr>\<rparr>"

fun remove_handler :: "evname \<Rightarrow> handler \<Rightarrow> subscription list \<Rightarrow> subscription list" where
  "remove_handler name h [] = []"
| "remove_handler name h (s # ss) =
     (if s_name s = name \<and> s_handler s = h then remove_handler name h ss
      else s # remove_handler name h ss)"

definition assets_off :: "evname \<Rightarrow> handler \<Rightarrow> world \<Rightarrow> world" where
  "assets_off name h w =
    w\<lparr>assets := (assets w)\<lparr>callbacks := remove_handler name h (callbacks (assets w))\<rparr>\<rparr>"

definition asset_on :: "asset \<Rightarrow> string \<Rightarrow> handler \<Rightarrow> world \<Rightarrow> world" where
  "asset_on a ev h w =
    w\<lparr>assets := (assets w)\<lparr>asset_callbacks := asset_callbacks (assets w) @ [(a_id a, ev, h)]\<rparr>\<rparr>"

definition asset_off :: "asset \<Rightarrow> string \<Rightarrow> handler \<Rightarrow> world \<Rightarrow> world" where
  "asset_off a ev h w =
    w\<lparr>assets := (assets w)\<lparr>asset_callbacks :=
        removeAll (a_id a, ev, h) (asset_callbacks (assets w))\<rparr>\<rparr>"

subsection \<open>Paths and JavaScript built-ins\<close>

text \<open>Modelled from the spec: \<^verbatim>\<open>pc.path\<close> is missing. A path is resolved relative to
  the model's source location: \<^verbatim>\<open>getDirectory\<close> is the part before the last slash,
  \<^verbatim>\<open>join\<close> puts one slash between a directory and a relative path.\<close>

definition path_getDirectory :: "string \<Rightarrow> string" where
  "path_getDirectory s = rev (drop 1 (dropWhile (\<lambda>c. c \<noteq> CHR ''/'') (rev s)))"

definition path_join :: "string \<Rightarrow> string \<Rightarrow> string" where
  "path_join a b =
    (if take 1 b = ''/'' then b
     else if a = [] then b
     else if last a = CHR ''/'' then a @ b
     else a @ ''/'' @ b)"

text \<open>\<^verbatim>\<open>isNaN(parseInt(s, 10))\<close> on a string: after leading white space and one optional
  sign there is no decimal digit.\<close>

definition js_whitespace :: "char \<Rightarrow> bool" where
  "js_whitespace c = (c \<in> set [CHR '' '', CHR 0x09, CHR 0x0A, CHR 0x0B, CHR 0x0C, CHR 0x0D])"

definition js_digit :: "char \<Rightarrow> bool" where
  "js_digit c = (c \<in> set ''0123456789'')"

definition parseInt_isNaN :: "string \<Rightarrow> bool" where
  "parseInt_isNaN s =
    (let t = dropWhile js_whitespace s;
         u = (case t of [] \<Rightarrow> t
              | c # r \<Rightarrow> if c = CHR ''+'' then r else if c = CHR ''-'' then r else t)
     in case u of [] \<Rightarrow> True | c # r \<Rightarrow> \<not> js_digit c)"

text \<open>Truthiness of a nullable number, of a resource reference and of a mapping value.\<close>

definition truthy_id :: "int option \<Rightarrow> bool" where
  "truthy_id v = (case v of None \<Rightarrow> False | Some n \<Rightarrow> n \<noteq> 0)"

definition truthy_ref :: "idOrPath \<Rightarrow> bool" where
  "truthy_ref v = (case v of Id n \<Rightarrow> n \<noteq> 0 | Path s \<Rightarrow> s \<noteq> [])"

definition js_array_get :: "'a option list \<Rightarrow> nat \<Rightarrow> 'a option" where
  "js_array_get xs i = (if i < length xs then xs ! i else None)"

text \<open>Assignment to an array element; JavaScript extends the array with holes.\<close>

definition js_array_set :: "'a option list \<Rightarrow> nat \<Rightarrow> 'a \<Rightarrow> 'a option list" where
  "js_array_set xs i v =
    (if i < length xs then xs[i := Some v]
     else xs @ replicate (i - length xs) None @ [Some v])"


section \<open>The component\<close>

subsection \<open>The material-event ledger\<close>

text \<open>\<^verbatim>\<open>_setMaterialEvent(index, event, id, handler)\<close>: subscribes the handler on the
  catalog and records it in \<^verbatim>\<open>_materialEvents[index][evt]\<close>. The slot object is an
  association list; assigning to a key that is present overwrites its entry.\<close>

definition setMaterialEvent :: "nat \<Rightarrow> string \<Rightarrow> idOrPath \<Rightarrow> handler \<Rightarrow> world \<Rightarrow> world" where
  "setMaterialEvent index event ident h w =
    (let evt = Ev event ident;
         w1 = assets_on evt h w;
         events = (case c_materialEvents (self w1) of None \<Rightarrow> [] | Some e \<Rightarrow> e);
         slot = (case js_array_get events index of None \<Rightarrow> [] | Some sl \<Rightarrow> sl);
         events' = js_array_set events index (AList.update evt (ident, h) slot)
     in w1\<lparr>self := (self w1)\<lparr>c_materialEvents := Some events'\<rparr>\<rparr>)"

text \<open>The inner loop of \<^verbatim>\<open>_unsetMaterialEvents\<close>: \<^verbatim>\<open>for (var key in evt)
  assets.off(key, evt[key].handler, this)\<close>.\<close>

fun unset_slot :: "(evname \<times> idOrPath \<times> handler) list \<Rightarrow> world \<Rightarrow> world" where
  "unset_slot [] w = w"
| "unset_slot (e # es) w = unset_slot es (assets_off (fst e) (snd (snd e)) w)"

text \<open>The outer loop: holes of the array are skipped.\<close>

fun unset_slots :: "ledger \<Rightarrow> world \<Rightarrow> world" where
  "unset_slots [] w = w"
| "unset_slots (sl # sls) w =
     (case sl of None \<Rightarrow> unset_slots sls w | Some evt \<Rightarrow> unset_slots sls (unset_slot evt w))"

definition unsetMaterialEvents :: "world \<Rightarrow> world" where
  "unsetMaterialEvents w =
    (case c_materialEvents (self w) of
       None \<Rightarrow> w
     | Some events \<Rightarrow>
         (let w1 = unset_slots events w in w1\<lparr>self := (self w1)\<lparr>c_materialEvents := None\<rparr>\<rparr>))"

subsection \<open>Resolving a material reference\<close>

definition getMaterialAssetUrl :: "string \<Rightarrow> world \<Rightarrow> string option" where
  "getMaterialAssetUrl path w =
    (if truthy_id (c_asset (self w)) then
       (case assets_get (Id (the (c_asset (self w)))) w of
          None \<Rightarrow> None
        | Some modelAsset \<Rightarrow> Some (path_join (path_getDirectory (a_url modelAsset)) path))
     else None)"

definition getAssetByIdOrPath :: "idOrPath \<Rightarrow> world \<Rightarrow> asset option" where
  "getAssetByIdOrPath idOrPath w =
    (case idOrPath of
       Id n \<Rightarrow> assets_get idOrPath w
     | Path s \<Rightarrow>
         (if parseInt_isNaN s then
            (if truthy_id (c_asset (self w)) then
               (case getMaterialAssetUrl s w of
                  None \<Rightarrow> None
                | Some url \<Rightarrow> if url = [] then None else getByUrl url w)
             else None)
          else assets_get idOrPath w))"

definition set_mesh_material :: "mesh_ref \<Rightarrow> handle option \<Rightarrow> world \<Rightarrow> world" where
  "set_mesh_material mi v w = update_mesh mi (\<lambda>m. m\<lparr>material := v\<rparr>) w"

text \<open>The closure \<^verbatim>\<open>handleMaterial\<close>, with the \<^verbatim>\<open>meshInstance\<close> and \<^verbatim>\<open>index\<close> it
  captures. Each function expression it evaluates takes the next function number.\<close>

definition handleMaterial :: "mesh_ref \<Rightarrow> nat \<Rightarrow> asset \<Rightarrow> world \<Rightarrow> world" where
  "handleMaterial mi index a w =
    (if a_resource a \<noteq> None then
       (let w1 = set_mesh_material mi (a_resource a) w;
            k = next_fn w1;
            w2 = w1\<lparr>next_fn := Suc k\<rparr>
        in setMaterialEvent index ''remove'' (Id (a_id a)) (RemovedMaterial k mi) w2)
     else
       (let k = next_fn w;
            w1 = w\<lparr>next_fn := Suc k\<rparr>;
            w2 = setMaterialEvent index ''load'' (Id (a_id a)) (LoadedMaterial k mi index) w1
        in if c_enabled (self w2) \<and> e_enabled (entity w2) then assets_load a w2 else w2))"

text \<open>\<^verbatim>\<open>_loadAndSetMeshInstanceMaterial\<close>. The source returns when no asset is found, and
  afterwards branches on the asset again.\<close>

definition loadAndSetMeshInstanceMaterial :: "idOrPath \<Rightarrow> mesh_ref \<Rightarrow> nat \<Rightarrow> world \<Rightarrow> world" where
  "loadAndSetMeshInstanceMaterial idOrPath mi index w =
    (let asset = getAssetByIdOrPath idOrPath w in
     if asset = None then w
     else
       (let k = next_fn w;
            w1 = w\<lparr>next_fn := Suc k\<rparr>
        in case asset of
             Some a \<Rightarrow> handleMaterial mi index a w1
           | None \<Rightarrow>
               (let w2 = set_mesh_material mi (Some DEFAULT_MATERIAL) w1;
                    isPath = (case idOrPath of Id n \<Rightarrow> False | Path s \<Rightarrow> parseInt_isNaN s)
                in setMaterialEvent index (if isPath then ''add:url'' else ''add'') idOrPath
                     (HandleMaterial k mi index) w2)))"

subsection \<open>Render flags\<close>

definition set_receiveShadows :: "bool \<Rightarrow> world \<Rightarrow> world" where
  "set_receiveShadows v w =
    (let w1 = w\<lparr>self := (self w)\<lparr>c_receiveShadows := v\<rparr>\<rparr> in
     case c_model (self w1) of
       None \<Rightarrow> w1
     | Some r \<Rightarrow> update_meshes r (\<lambda>m. m\<lparr>receiveShadow := v\<rparr>) w1)"

definition deleteParameter :: "string \<Rightarrow> mesh_instance \<Rightarrow> mesh_instance" where
  "deleteParameter name m = m\<lparr>mi_parameters := removeAll name (mi_parameters m)\<rparr>"

definition set_lightmapped :: "bool \<Rightarrow> world \<Rightarrow> world" where
  "set_lightmapped v w =
    (let w1 = w\<lparr>self := (self w)\<lparr>c_lightmapped := v\<rparr>\<rparr> in
     case c_model (self w1) of
       None \<Rightarrow> w1
     | Some r \<Rightarrow>
         (if v then update_meshes r (\<lambda>m. m\<lparr>mi_mask := MASK_BAKED\<rparr>) w1
          else update_meshes r
                 (\<lambda>m. (deleteParameter ''texture_dirLightMap''
                          (deleteParameter ''texture_lightMap'' m))
                        \<lparr>mi_shaderDef_LM := False, mi_mask := MASK_DYNAMIC\<rparr>) w1))"

definition set_isStatic :: "bool \<Rightarrow> world \<Rightarrow> world" where
  "set_isStatic v w =
    (let w1 = w\<lparr>self := (self w)\<lparr>c_isStatic := v\<rparr>\<rparr> in
     case c_model (self w1) of
       None \<Rightarrow> w1
     | Some r \<Rightarrow> update_meshes r (\<lambda>m. m\<lparr>isStatic := v\<rparr>) w1)"

definition set_castShadows :: "bool \<Rightarrow> world \<Rightarrow> world" where
  "set_castShadows v w =
    (let oldValue = c_castShadows (self w);
         w1 = w\<lparr>self := (self w)\<lparr>c_castShadows := v\<rparr>\<rparr>
     in case c_model (self w1) of
          None \<Rightarrow> w1
        | Some model \<Rightarrow>
            (let inScene = containsModel model w1;
                 w2 = (if inScene \<and> oldValue \<and> \<not> v then removeShadowCaster model w1 else w1);
                 w3 = update_meshes model (\<lambda>m. m\<lparr>castShadow := v\<rparr>) w2
             in if inScene \<and> \<not> oldValue \<and> v then addShadowCaster model w3 else w3))"

definition hide :: "world \<Rightarrow> world" where
  "hide w =
    (case c_model (self w) of
       None \<Rightarrow> w
     | Some r \<Rightarrow> update_meshes r (\<lambda>m. m\<lparr>visible := False\<rparr>) w)"

definition show_meshes :: "world \<Rightarrow> world" where
  "show_meshes w =
    (case c_model (self w) of
       None \<Rightarrow> w
     | Some r \<Rightarrow> update_meshes r (\<lambda>m. m\<lparr>visible := True\<rparr>) w)"

definition set_material :: "handle option \<Rightarrow> world \<Rightarrow> world" where
  "set_material newValue w =
    (let oldValue = c_material (self w);
         w1 = w\<lparr>self := (self w)\<lparr>c_material := newValue\<rparr>\<rparr>
     in if newValue = oldValue then w1
        else (case c_model (self w1) of
                None \<Rightarrow> w1
              | Some r \<Rightarrow>
                  (if c_type (self w1) = ''asset'' then w1
                   else update_meshes r (\<lambda>m. m\<lparr>material := newValue\<rparr>) w1)))"

definition set_batchGroupId :: "int \<Rightarrow> world \<Rightarrow> world" where
  "set_batchGroupId newValue w =
    (let oldValue = c_batchGroupId (self w);
         w1 = w\<lparr>self := (self w)\<lparr>c_batchGroupId := newValue\<rparr>\<rparr>
     in if newValue < 0 \<and> oldValue \<ge> 0 \<and> c_enabled (self w1) \<and> e_enabled (entity w1)
        then addModel (c_model (self w1)) w1
        else w1)"

subsection \<open>The mapping table\<close>

text \<open>\<^verbatim>\<open>assetMapping[i] && (assetMapping[i].material || assetMapping[i].path)\<close>, and the
  value \<^verbatim>\<open>assetMapping[i].material || assetMapping[i].path\<close> when it is truthy.\<close>

definition assetMapping_ref :: "mapentry option list \<Rightarrow> nat \<Rightarrow> idOrPath option" where
  "assetMapping_ref am i =
    (case js_array_get am i of
       None \<Rightarrow> None
     | Some e \<Rightarrow>
         (if truthy_id (am_material e) then Some (Id (the (am_material e)))
          else (case am_path e of
                  None \<Rightarrow> None
                | Some p \<Rightarrow> if p = [] then None else Some (Path p))))"

text \<open>One turn of the loop over the mesh instances of the bound model.\<close>

definition mapping_step ::
  "mapping \<Rightarrow> mapentry option list option \<Rightarrow> handle \<Rightarrow> nat \<Rightarrow> world \<Rightarrow> world" where
  "mapping_step newValue assetMapping r i w =
    (case newValue i of
       Some v \<Rightarrow>
         (case v of
            None \<Rightarrow> set_mesh_material (r, i) (Some DEFAULT_MATERIAL) w
          | Some ref \<Rightarrow>
              (if truthy_ref ref then loadAndSetMeshInstanceMaterial ref (r, i) i w
               else set_mesh_material (r, i) (Some DEFAULT_MATERIAL) w))
     | None \<Rightarrow>
         (case assetMapping of
            None \<Rightarrow> w
          | Some am \<Rightarrow>
              (case assetMapping_ref am i of
                 Some idOrPath \<Rightarrow> loadAndSetMeshInstanceMaterial idOrPath (r, i) i w
               | None \<Rightarrow> set_mesh_material (r, i) (Some DEFAULT_MATERIAL) w)))"

text \<open>\<^verbatim>\<open>modelAsset ? modelAsset.data.mapping : null\<close>, for the model asset that
  \<^verbatim>\<open>this.asset\<close> names in the catalog.\<close>

definition model_assetMapping :: "world \<Rightarrow> mapentry option list option" where
  "model_assetMapping w =
    (let modelAsset = (if truthy_id (c_asset (self w))
                       then assets_get (Id (the (c_asset (self w)))) w else None)
     in case modelAsset of None \<Rightarrow> None | Some ma \<Rightarrow> a_mapping ma)"

text \<open>The table the loop reads: \<^verbatim>\<open>if (!newValue) newValue = {}\<close>.\<close>

definition mapping_table :: "mapping option \<Rightarrow> mapping" where
  "mapping_table newValue = (case newValue of None \<Rightarrow> (\<lambda>i. None) | Some m \<Rightarrow> m)"

definition set_mapping :: "mapping option \<Rightarrow> world \<Rightarrow> world" where
  "set_mapping newValue w =
    (let w1 = w\<lparr>self := (self w)\<lparr>c_mapping := newValue\<rparr>\<rparr> in
     if c_type (self w1) = ''asset'' then
       (case c_model (self w1) of
          None \<Rightarrow> w1
        | Some r \<Rightarrow>
            (let w2 = unsetMaterialEvents w1;
                 len = length (meshInstances (models w2 r))
             in fold (mapping_step (mapping_table newValue) (model_assetMapping w2) r)
                  [0..<len] w2))
     else w1)"

text \<open>What the ledger \<^verbatim>\<open>_materialEvents\<close> records for one mesh index.\<close>

definition ledger_slot :: "nat \<Rightarrow> world \<Rightarrow> (evname \<times> idOrPath \<times> handler) list" where
  "ledger_slot i w =
    (case c_materialEvents (self w) of
       None \<Rightarrow> []
     | Some events \<Rightarrow> (case js_array_get events i of None \<Rightarrow> [] | Some sl \<Rightarrow> sl))"

text \<open>The pairs of event name and function that the ledger records, over all slots.\<close>

definition ledger_recorded :: "ledger \<Rightarrow> (evname \<times> handler) list" where
  "ledger_recorded events =
    concat (map (\<lambda>sl. case sl of None \<Rightarrow> [] | Some es \<Rightarrow> map (\<lambda>e. (fst e, snd (snd e))) es)
      events)"

subsection \<open>The bound model\<close>

definition set_model :: "handle option \<Rightarrow> world \<Rightarrow> world" where
  "set_model newValue w =
    (let oldValue = c_model (self w);
         w1 = w\<lparr>self := (self w)\<lparr>c_model := newValue\<rparr>\<rparr>;
         w2 = (case oldValue of
                 None \<Rightarrow> w1
               | Some ov \<Rightarrow>
                   (let wa = removeModel ov w1;
                        wb = removeChild (graph (models wa ov)) wa;
                        wc = set__entity ov False wb
                    in if c_clonedModel (self wc)
                       then (let wd = model_destroy ov wc
                             in wd\<lparr>self := (self wd)\<lparr>c_clonedModel := False\<rparr>\<rparr>)
                       else wc))
     in case newValue of
          None \<Rightarrow> unsetMaterialEvents w2
        | Some nv \<Rightarrow>
            (let w3 = update_meshes nv
                        (\<lambda>m. m\<lparr>castShadow := c_castShadows (self w2),
                                receiveShadow := c_receiveShadows (self w2)\<rparr>) w2;
                 w4 = set_lightmapped (c_lightmapped (self w3)) w3;
                 w5 = set_isStatic (c_isStatic (self w4)) w4;
                 w6 = addChild (graph (models w5 nv)) w5;
                 w7 = (if c_enabled (self w6) \<and> e_enabled (entity w6)
                       then addModel (Some nv) w6 else w6);
                 w8 = set__entity nv True w7;
                 w9 = (if e_animation (entity w8) then animation_setModel nv w8 else w8)
             in if c_type (self w9) = ''asset'' then set_mapping (c_mapping (self w9)) w9
                else unsetMaterialEvents w9))"


subsection \<open>The model asset\<close>

definition onModelLoaded :: "handle \<Rightarrow> world \<Rightarrow> world" where
  "onModelLoaded model w = (if c_type (self w) = ''asset'' then set_model (Some model) w else w)"

definition onModelAsset :: "asset option \<Rightarrow> world \<Rightarrow> world" where
  "onModelAsset asset w =
    (let w1 = (if c_assetOld (self w) \<noteq> 0 then
                 (let wa = assets_off (Ev ''add'' (Id (c_assetOld (self w)))) OnModelAsset w in
                  case assets_get (Id (c_assetOld (self wa))) wa of
                    None \<Rightarrow> wa
                  | Some assetOld \<Rightarrow>
                      asset_off assetOld ''remove'' OnAssetRemove
                        (asset_off assetOld ''change'' OnAssetChange
                          (asset_off assetOld ''unload'' OnAssetUnload
                            (asset_off assetOld ''load'' OnAssetLoad wa))))
               else w);
         w2 = w1\<lparr>self := (self w1)\<lparr>c_assetOld := (case asset of None \<Rightarrow> 0 | Some a \<Rightarrow> a_id a)\<rparr>\<rparr>
     in case asset of
          None \<Rightarrow> w2\<lparr>self := (self w2)\<lparr>c_dirtyModelAsset := False\<rparr>\<rparr>
        | Some a \<Rightarrow>
            (let w3 = asset_on a ''remove'' OnAssetRemove
                        (asset_on a ''change'' OnAssetChange
                          (asset_on a ''unload'' OnAssetUnload
                            (asset_on a ''load'' OnAssetLoad w2)))
             in case a_resource a of
                  Some res \<Rightarrow>
                    (let w4 = w3\<lparr>self := (self w3)\<lparr>c_dirtyModelAsset := False\<rparr>\<rparr>;
                         w5 = onModelLoaded (next_handle w4) (model_clone res w4)
                     in w5\<lparr>self := (self w5)\<lparr>c_clonedModel := True\<rparr>\<rparr>)
                | None \<Rightarrow>
                    (if c_enabled (self w3) \<and> e_enabled (entity w3)
                     then assets_load a (w3\<lparr>self := (self w3)\<lparr>c_dirtyModelAsset := False\<rparr>\<rparr>)
                     else w3)))"

definition setModelAsset :: "int option \<Rightarrow> world \<Rightarrow> world" where
  "setModelAsset ident w =
    (if Some (c_assetOld (self w)) = ident then w
     else
       (let asset = (case ident of None \<Rightarrow> None | Some n \<Rightarrow> assets_get (Id n) w);
            w1 = w\<lparr>self := (self w)\<lparr>c_dirtyModelAsset := True\<rparr>\<rparr>;
            w2 = onModelAsset asset w1
        in case ident of
             None \<Rightarrow> w2
           | Some n \<Rightarrow> if asset = None then assets_once (Ev ''add'' (Id n)) OnModelAsset w2 else w2))"

definition remove :: "world \<Rightarrow> world" where
  "remove w = onModelAsset None w"

definition assetref_id :: "assetref option \<Rightarrow> int option" where
  "assetref_id value =
    (case value of
       None \<Rightarrow> None
     | Some v \<Rightarrow> (case v of AssetId n \<Rightarrow> Some n | AssetObj a \<Rightarrow> Some (a_id a)))"

definition set_asset :: "assetref option \<Rightarrow> world \<Rightarrow> world" where
  "set_asset value w =
    (let isAsset = (c_type (self w) = ''asset'');
         ident = (if isAsset then assetref_id value else None);
         w1 = (if isAsset then
                 (case value of
                    Some v \<Rightarrow> w\<lparr>self := (self w)\<lparr>c_asset := ident\<rparr>\<rparr>
                  | None \<Rightarrow> set_model None (w\<lparr>self := (self w)\<lparr>c_asset := None\<rparr>\<rparr>))
               else w);
         w2 = (if ident = None then w1\<lparr>self := (self w1)\<lparr>c_asset := None\<rparr>\<rparr> else w1)
     in setModelAsset ident w2)"

subsection \<open>The type\<close>

text \<open>The type values the configuration surface recognises, and the primitive shapes
  among them.\<close>

definition primitive_types :: "string list" where
  "primitive_types = [''box'', ''capsule'', ''cone'', ''cylinder'', ''sphere'', ''plane'']"

definition recognized_types :: "string list" where
  "recognized_types = ''asset'' # primitive_types"

text \<open>The \<^verbatim>\<open>switch\<close> of the type setter: the system's mesh and the \<^verbatim>\<open>_area\<close> of each
  primitive shape; \<open>None\<close> is the \<^verbatim>\<open>default\<close> case.\<close>

definition primitive :: "string \<Rightarrow> (mesh \<times> area) option" where
  "primitive value =
    (if value = ''box'' then
       Some (Box, \<lparr>area_x = 2, area_y = 2, area_z = 2, area_uv = 2 / 3\<rparr>)
     else if value = ''capsule'' then
       Some (Capsule, \<lparr>area_x = pi * 2, area_y = pi, area_z = pi * 2,
                       area_uv = 1 / 3 + ((1 / 3) / 3) * 2\<rparr>)
     else if value = ''sphere'' then
       Some (Sphere, \<lparr>area_x = pi, area_y = pi, area_z = pi, area_uv = 1\<rparr>)
     else if value = ''cone'' then
       Some (Cone, \<lparr>area_x = 254 / 100, area_y = 254 / 100, area_z = 254 / 100,
                    area_uv = 1 / 3 + (1 / 3) / 3\<rparr>)
     else if value = ''cylinder'' then
       Some (Cylinder, \<lparr>area_x = pi, area_y = (79 / 100) * 2, area_z = pi,
                        area_uv = 1 / 3 + ((1 / 3) / 3) * 2\<rparr>)
     else if value = ''plane'' then
       Some (Plane, \<lparr>area_x = 0, area_y = 1, area_z = 0, area_uv = 1\<rparr>)
     else None)"

text \<open>Modelled from the spec: \<^verbatim>\<open>new pc.MeshInstance(node, mesh, material)\<close> (the class
  is missing) gives a mesh instance on the node with the mesh and the material; the render
  flags are overwritten by the model setter.\<close>

definition MeshInstance :: "node \<Rightarrow> mesh \<Rightarrow> handle option \<Rightarrow> mesh_instance" where
  "MeshInstance n m mat =
    \<lparr>mi_node = n, mi_mesh = m, material = mat, castShadow = False, receiveShadow = True,
     isStatic = False, visible = True, mi_mask = MASK_DYNAMIC, mi_parameters = [],
     mi_shaderDef_LM = False\<rparr>"

text \<open>The type setter. \<open>Inl\<close> is the thrown error, with the state the component is left in.\<close>

definition set_type :: "string \<Rightarrow> world \<Rightarrow> (string \<times> world) + world" where
  "set_type value w =
    (let w1 = w\<lparr>self := (self w)\<lparr>c_type := value\<rparr>\<rparr> in
     if value = [] then Inr w1
     else
       (let w2 = w1\<lparr>self := (self w1)\<lparr>c_area := None\<rparr>\<rparr> in
        if value = ''asset'' then
          (if c_asset (self w2) \<noteq> None then Inr (setModelAsset (c_asset (self w2)) w2)
           else Inr (set_model None w2))
        else
          (case primitive value of
             None \<Rightarrow> Inl (''Invalid model type: '' @ value, w2)
           | Some p \<Rightarrow>
               (let w3 = w2\<lparr>self := (self w2)\<lparr>c_area := Some (snd p)\<rparr>\<rparr>;
                    n = next_node w3;
                    h = next_handle w3;
                    w4 = w3\<lparr>models := (models w3)(h :=
                              \<lparr>meshInstances = [MeshInstance n (fst p) (c_material (self w3))],
                               graph = n, m_entity = False, destroyed = 0\<rparr>),
                            next_handle := Suc h, next_node := Suc n\<rparr>;
                    w5 = set_model (Some h) w4
                in Inr (set_asset None w5)))))"

subsection \<open>The material asset\<close>

text \<open>\<^verbatim>\<open>asset.resource === this.material\<close>: an entry that is not loaded has no resource,
  and no resource is not identical to any material value.\<close>

definition resource_is_material :: "asset \<Rightarrow> world \<Rightarrow> bool" where
  "resource_is_material a w =
    (case a_resource a of None \<Rightarrow> False | Some r \<Rightarrow> c_material (self w) = Some r)"

definition onMaterialAssetRemove :: "assetref \<Rightarrow> world \<Rightarrow> world" where
  "onMaterialAssetRemove asset w =
    (let ident = (case asset of AssetId n \<Rightarrow> n | AssetObj a \<Rightarrow> a_id a);
         w1 = (case asset of
                 AssetId n \<Rightarrow> w
               | AssetObj a \<Rightarrow>
                   if resource_is_material a w then set_material (Some DEFAULT_MATERIAL) w else w)
     in assets_off (Ev ''remove'' (Id ident)) OnMaterialAssetRemove
          (assets_off (Ev ''unload'' (Id ident)) OnMaterialAssetUnload
            (assets_off (Ev ''load'' (Id ident)) OnMaterialAssetLoad
              (assets_off (Ev ''add'' (Id ident)) OnMaterialAssetAdd w1))))"

definition onMaterialAssetAdd :: "asset \<Rightarrow> world \<Rightarrow> world" where
  "onMaterialAssetAdd a w =
    (case a_resource a of
       Some res \<Rightarrow>
         (let w1 = set_material (Some res) w
          in w1\<lparr>self := (self w1)\<lparr>c_dirtyMaterialAsset := False\<rparr>\<rparr>)
     | None \<Rightarrow>
         (if c_enabled (self w) \<and> e_enabled (entity w)
          then assets_load a (w\<lparr>self := (self w)\<lparr>c_dirtyMaterialAsset := False\<rparr>\<rparr>)
          else w))"

definition onMaterialAssetLoad :: "asset \<Rightarrow> world \<Rightarrow> world" where
  "onMaterialAssetLoad a w =
    (case a_resource a of
       Some res \<Rightarrow>
         (let w1 = set_material (Some res) w
          in w1\<lparr>self := (self w1)\<lparr>c_dirtyMaterialAsset := False\<rparr>\<rparr>)
     | None \<Rightarrow>
         (if c_enabled (self w) \<and> e_enabled (entity w)
          then assets_load a (w\<lparr>self := (self w)\<lparr>c_dirtyMaterialAsset := False\<rparr>\<rparr>)
          else w))"

definition onMaterialAssetUnload :: "assetref \<Rightarrow> world \<Rightarrow> world" where
  "onMaterialAssetUnload asset w =
    (case asset of
       AssetId n \<Rightarrow> w
     | AssetObj a \<Rightarrow>
         if resource_is_material a w then set_material (Some DEFAULT_MATERIAL) w else w)"

text \<open>\<^verbatim>\<open>this._materialAsset !== id\<close>, on the stored value and the identifier computed from
  it: a number or null is compared with itself, an asset object with its number.\<close>

definition materialAsset_differs :: "assetref option \<Rightarrow> int option \<Rightarrow> bool" where
  "materialAsset_differs stored ident =
    (case stored of
       None \<Rightarrow> ident \<noteq> None
     | Some v \<Rightarrow> (case v of AssetId n \<Rightarrow> ident \<noteq> Some n | AssetObj a \<Rightarrow> True))"

definition truthy_assetref :: "assetref option \<Rightarrow> bool" where
  "truthy_assetref v =
    (case v of
       None \<Rightarrow> False
     | Some x \<Rightarrow> (case x of AssetId n \<Rightarrow> n \<noteq> 0 | AssetObj a \<Rightarrow> True))"

definition set_materialAsset :: "assetref option \<Rightarrow> world \<Rightarrow> world" where
  "set_materialAsset value w =
    (let w1 = w\<lparr>self := (self w)\<lparr>c_materialAsset := value, c_dirtyMaterialAsset := True\<rparr>\<rparr>;
         ident = assetref_id value;
         w2 = (if materialAsset_differs (c_materialAsset (self w1)) ident then
                 (let wa = (if truthy_assetref (c_materialAsset (self w1))
                            then onMaterialAssetRemove (the (c_materialAsset (self w1))) w1
                            else w1)
                  in if truthy_id ident then
                       assets_on (Ev ''remove'' (Id (the ident))) OnMaterialAssetRemove
                         (assets_on (Ev ''unload'' (Id (the ident))) OnMaterialAssetUnload
                           (assets_on (Ev ''load'' (Id (the ident))) OnMaterialAssetLoad wa))
                     else wa)
               else w1)
     in case ident of
          Some n \<Rightarrow>
            (let w3 = (case assets_get (Id n) w2 of
                         None \<Rightarrow> w2
                       | Some a \<Rightarrow> onMaterialAssetLoad a w2)
             in assets_once (Ev ''add'' (Id n)) OnMaterialAssetAdd w3)
        | None \<Rightarrow>
            (let w3 = set_material (Some DEFAULT_MATERIAL) w2
             in w3\<lparr>self := (self w3)\<lparr>c_dirtyMaterialAsset := False\<rparr>\<rparr>))"

subsection \<open>Handlers of the model asset's own events\<close>

definition onAssetLoad :: "asset \<Rightarrow> world \<Rightarrow> world" where
  "onAssetLoad a w =
    (case a_resource a of
       None \<Rightarrow> w
     | Some res \<Rightarrow>
         (let w1 = onModelLoaded (next_handle w) (model_clone res w)
          in w1\<lparr>self := (self w1)\<lparr>c_clonedModel := True\<rparr>\<rparr>))"

definition onAssetUnload :: "asset \<Rightarrow> world \<Rightarrow> world" where
  "onAssetUnload a w =
    (case c_model (self w) of
       None \<Rightarrow> w
     | Some m \<Rightarrow> set_model None (removeModel m w))"

definition onAssetRemove :: "asset \<Rightarrow> world \<Rightarrow> world" where
  "onAssetRemove a w = (if c_asset (self w) = Some (a_id a) then set_asset None w else w)"

subsection \<open>Delivery of catalog events\<close>

text \<open>The function expression subscribed to \<^verbatim>\<open>load\<close> inside \<^verbatim>\<open>handleMaterial\<close>.\<close>

definition loadedMaterial :: "mesh_ref \<Rightarrow> nat \<Rightarrow> asset \<Rightarrow> world \<Rightarrow> world" where
  "loadedMaterial mi index a w =
    (let w1 = set_mesh_material mi (a_resource a) w;
         k = next_fn w1;
         w2 = w1\<lparr>next_fn := Suc k\<rparr>
     in setMaterialEvent index ''remove'' (Id (a_id a)) (RemovedMaterial k mi) w2)"

text \<open>Calling a handler with the asset as its only argument. \<^verbatim>\<open>_onAssetChange\<close> compares
  its second argument with \<^verbatim>\<open>'data'\<close> and does nothing without one.\<close>

fun invoke :: "handler \<Rightarrow> asset \<Rightarrow> world \<Rightarrow> world" where
  "invoke OnModelAsset a w = onModelAsset (Some a) w"
| "invoke OnAssetLoad a w = onAssetLoad a w"
| "invoke OnAssetUnload a w = onAssetUnload a w"
| "invoke OnAssetChange a w = w"
| "invoke OnAssetRemove a w = onAssetRemove a w"
| "invoke OnMaterialAssetAdd a w = onMaterialAssetAdd a w"
| "invoke OnMaterialAssetLoad a w = onMaterialAssetLoad a w"
| "invoke OnMaterialAssetUnload a w = onMaterialAssetUnload (AssetObj a) w"
| "invoke OnMaterialAssetRemove a w = onMaterialAssetRemove (AssetObj a) w"
| "invoke (HandleMaterial k mi index) a w = handleMaterial mi index a w"
| "invoke (LoadedMaterial k mi index) a w = loadedMaterial mi index a w"
| "invoke (RemovedMaterial k mi) a w = set_mesh_material mi (Some DEFAULT_MATERIAL) w"

text \<open>Modelled from the spec: event delivery of the catalog (\<^verbatim>\<open>pc.events\<close> is missing).
  Delivery is synchronous, in registration order, to the handlers subscribed under the name
  when the event fires; a handler that was unsubscribed in the meantime is not called, and a
  one-shot subscription is dropped when it is delivered. \<open>delivered\<close> records every call.\<close>

fun deliver :: "asset \<Rightarrow> subscription list \<Rightarrow> world \<Rightarrow> world" where
  "deliver a [] w = w"
| "deliver a (s # ss) w =
     (if List.member (callbacks (assets w)) s then
        (let w1 = (if s_once s
                   then w\<lparr>assets := (assets w)\<lparr>callbacks := remove1 s (callbacks (assets w))\<rparr>\<rparr>
                   else w);
             w2 = w1\<lparr>assets := (assets w1)\<lparr>delivered :=
                        delivered (assets w1) @ [(s_name s, s_handler s)]\<rparr>\<rparr>
         in deliver a ss (invoke (s_handler s) a w2))
      else deliver a ss w)"

definition assets_fire :: "evname \<Rightarrow> asset \<Rightarrow> world \<Rightarrow> world" where
  "assets_fire name a w = deliver a (filter (\<lambda>s. s_name s = name) (callbacks (assets w))) w"

text \<open>Modelled from the spec: what the catalog does on its own turns. Registering an entry
  fires \<^verbatim>\<open>add:<id>\<close> and \<^verbatim>\<open>add:url:<url>\<close>; completing a load stores the resource and
  fires \<^verbatim>\<open>load:<id>\<close>; unloading fires \<^verbatim>\<open>unload:<id>\<close> and drops the resource;
  removing an entry fires \<^verbatim>\<open>remove:<id>\<close>.\<close>

definition assets_add :: "asset \<Rightarrow> world \<Rightarrow> world" where
  "assets_add a w =
    (let w1 = w\<lparr>assets := (assets w)\<lparr>entries := entries (assets w) @ [a]\<rparr>\<rparr>;
         w2 = assets_fire (Ev ''add'' (Id (a_id a))) a w1
     in assets_fire (Ev ''add:url'' (Path (a_url a))) a w2)"

definition assets_loaded :: "int \<Rightarrow> handle \<Rightarrow> world \<Rightarrow> world" where
  "assets_loaded n res w =
    (let w1 = w\<lparr>assets := (assets w)\<lparr>entries :=
                   map (\<lambda>a. if a_id a = n then a\<lparr>a_resource := Some res\<rparr> else a)
                     (entries (assets w))\<rparr>\<rparr>
     in case assets_get (Id n) w1 of
          None \<Rightarrow> w1
        | Some a \<Rightarrow> assets_fire (Ev ''load'' (Id n)) a w1)"

definition assets_unloaded :: "int \<Rightarrow> world \<Rightarrow> world" where
  "assets_unloaded n w =
    (case assets_get (Id n) w of
       None \<Rightarrow> w
     | Some a \<Rightarrow>
         (let w1 = assets_fire (Ev ''unload'' (Id n)) a w
          in w1\<lparr>assets := (assets w1)\<lparr>entries :=
                 map (\<lambda>b. if a_id b = n then b\<lparr>a_resource := None\<rparr> else b)
                   (entries (assets w1))\<rparr>\<rparr>))"

definition assets_remove :: "int \<Rightarrow> world \<Rightarrow> world" where
  "assets_remove n w =
    (case assets_get (Id n) w of
       None \<Rightarrow> w
     | Some a \<Rightarrow>
         assets_fire (Ev ''remove'' (Id n)) a
           (w\<lparr>assets := (assets w)\<lparr>entries :=
                 filter (\<lambda>b. a_id b \<noteq> n) (entries (assets w))\<rparr>\<rparr>))"

subsection \<open>A new component\<close>

text \<open>The constructor's field values, on a component that is enabled.\<close>

definition ModelComponent :: component where
  "ModelComponent =
    \<lparr>c_enabled = True, c_type = ''asset'', c_asset = None, c_castShadows = True,
     c_receiveShadows = True, c_materialAsset = None, c_mapping = None,
     c_lightmapped = False, c_isStatic = False, c_batchGroupId = - 1,
     c_material = None, c_model = None, c_assetOld = 0, c_materialEvents = None,
     c_dirtyModelAsset = False, c_dirtyMaterialAsset = False, c_clonedModel = False,
     c_area = None\<rparr>"


section \<open>Example worlds\<close>

text \<open>A catalog with a loaded model asset (identifier 1, four sub-meshes, no declared
  mapping) and a material asset (identifier 7) that is registered but not loaded; a new
  component on an enabled entity; an empty scene.\<close>

definition ship_model :: model_obj where
  "ship_model =
    \<lparr>meshInstances = [MeshInstance 1 (Mesh 0) (Some 5), MeshInstance 1 (Mesh 1) (Some 5),
                      MeshInstance 1 (Mesh 2) (Some 5), MeshInstance 1 (Mesh 3) (Some 5)],
     graph = 1, m_entity = False, destroyed = 0\<rparr>"

definition no_model :: model_obj where
  "no_model = \<lparr>meshInstances = [], graph = 0, m_entity = False, destroyed = 0\<rparr>"

definition ship_asset :: asset where
  "ship_asset =
    \<lparr>a_id = 1, a_resource = Some 10, a_url = ''models/ship.json'', a_mapping = None\<rparr>"

definition red_asset :: asset where
  "red_asset =
    \<lparr>a_id = 7, a_resource = None, a_url = ''materials/red.json'', a_mapping = None\<rparr>"

definition empty_scene :: scene where
  "empty_scene = \<lparr>sc_models = {}, sc_shadowCasters = {}, sc_calls = []\<rparr>"

definition new_world :: world where
  "new_world =
    \<lparr>self = ModelComponent,
     scene = empty_scene,
     assets = \<lparr>entries = [ship_asset, red_asset], callbacks = [], asset_callbacks = [],
               load_requests = [], delivered = []\<rparr>,
     entity = \<lparr>e_enabled = True, e_children = {}, e_animation = False,
               e_animation_model = None\<rparr>,
     models = (\<lambda>h. no_model)(10 := ship_model),
     next_handle = 100, next_node = 100, next_fn = 0\<rparr>"

text \<open>The ship model bound to the component directly (\<^verbatim>\<open>component.model = ship\<close>) and
  present in the scene; the same with the component in batch group 3, whose batching has
  taken the model out of the scene; and a grouped component with no model.\<close>

definition in_scene_world :: world where
  "in_scene_world =
    new_world\<lparr>self := ModelComponent\<lparr>c_model := Some 10\<rparr>,
              scene := \<lparr>sc_models = {10}, sc_shadowCasters = {10}, sc_calls = []\<rparr>\<rparr>"

definition grouped_world :: world where
  "grouped_world =
    new_world\<lparr>self := ModelComponent\<lparr>c_model := Some 10, c_batchGroupId := 3\<rparr>\<rparr>"

definition grouped_empty_world :: world where
  "grouped_empty_world = new_world\<lparr>self := ModelComponent\<lparr>c_batchGroupId := 3\<rparr>\<rparr>"

text \<open>The component after \<^verbatim>\<open>component.asset = 1\<close> on the new world.\<close>

definition bound_world :: world where
  "bound_world = set_asset (Some (AssetId 1)) new_world"

text \<open>The component bound to the ship asset, with the material asset 7 mapped onto
  mesh 0 while that asset is not loaded. The asset then completes a load, is unloaded and
  loaded again (a second \<^verbatim>\<open>load\<close> event), the ledger is torn down, and the asset is
  removed.\<close>

definition mapped_world :: world where
  "mapped_world = set_mapping (Some ((\<lambda>i. None)(0 := Some (Some (Id 7))))) bound_world"

definition reloaded_world :: world where
  "reloaded_world = assets_loaded 7 99 (assets_unloaded 7 (assets_loaded 7 99 mapped_world))"

definition torn_down_world :: world where
  "torn_down_world = unsetMaterialEvents reloaded_world"

definition removed_world :: world where
  "removed_world = assets_remove 7 torn_down_world"

text \<open>The mapping table that sends mesh 2 to the path \<^verbatim>\<open>red.mat\<close>, which no catalog
  entry has; and an entry that is registered at that path, beside the model, afterwards.\<close>

definition path_mapped_world :: world where
  "path_mapped_world =
    set_mapping (Some ((\<lambda>i. None)(2 := Some (Some (Path ''red.mat''))))) bound_world"

definition late_asset :: asset where
  "late_asset =
    \<lparr>a_id = 8, a_resource = Some 77, a_url = ''models/red.mat'', a_mapping = None\<rparr>"

definition late_world :: world where
  "late_world = assets_add late_asset path_mapped_world"

text \<open>The ship model bound to a component whose model asset declares a mapping for mesh 0
  only.\<close>

definition declared_world :: world where
  "declared_world =
    new_world\<lparr>self := ModelComponent\<lparr>c_model := Some 10, c_asset := Some 1\<rparr>,
              assets := (assets new_world)\<lparr>entries :=
                [ship_asset\<lparr>a_mapping := Some [Some \<lparr>am_material = Some 7, am_path = None\<rparr>]\<rparr>,
                 red_asset]\<rparr>\<rparr>"


text \<open>The asset property set to identifier 42, which the catalog has no entry for, once
  and twice; and the catalog registering a loaded model asset under 42 afterwards.\<close>

definition asked_once_world :: world where
  "asked_once_world = set_asset (Some (AssetId 42)) new_world"

definition asked_twice_world :: world where
  "asked_twice_world = set_asset (Some (AssetId 42)) asked_once_world"

definition late_model_asset :: asset where
  "late_model_asset =
    \<lparr>a_id = 42, a_resource = Some 10, a_url = ''models/late.json'', a_mapping = None\<rparr>"

definition answered_world :: world where
  "answered_world = assets_add late_model_asset asked_twice_world"

text \<open>A new component whose material is the handle 5.\<close>

definition painted_world :: world where
  "painted_world = new_world\<lparr>self := ModelComponent\<lparr>c_material := Some 5\<rparr>\<rparr>"

section \<open>Facts about the operations\<close>

lemmas example_defs =
  new_world_def ModelComponent_def empty_scene_def ship_asset_def red_asset_def
  ship_model_def no_model_def MeshInstance_def in_scene_world_def grouped_world_def
  grouped_empty_world_def

lemma assets_set_material [simp]: "assets (set_material v w) = assets w"
  by (simp add: set_material_def update_meshes_def Let_def split: option.splits)

lemma callbacks_onMaterialAssetLoad [simp]:
  "callbacks (assets (onMaterialAssetLoad a w)) = callbacks (assets w)"
  by (simp add: onMaterialAssetLoad_def assets_load_def Let_def split: option.splits)

lemma unset_slot_frame [simp]:
  "scene (unset_slot es w) = scene w"
  "entity (unset_slot es w) = entity w"
  "models (unset_slot es w) = models w"
  "self (unset_slot es w) = self w"
  "next_handle (unset_slot es w) = next_handle w"
  by (induction es arbitrary: w) (simp_all add: assets_off_def)

lemma unset_slots_frame [simp]:
  "scene (unset_slots sl w) = scene w"
  "entity (unset_slots sl w) = entity w"
  "models (unset_slots sl w) = models w"
  "self (unset_slots sl w) = self w"
  "next_handle (unset_slots sl w) = next_handle w"
  by (induction sl arbitrary: w) (simp_all split: option.splits)

lemma unsetMaterialEvents_frame [simp]:
  "scene (unsetMaterialEvents w) = scene w"
  "entity (unsetMaterialEvents w) = entity w"
  "models (unsetMaterialEvents w) = models w"
  "next_handle (unsetMaterialEvents w) = next_handle w"
  "self (unsetMaterialEvents w) = (self w)\<lparr>c_materialEvents := None\<rparr>"
  by (simp_all add: unsetMaterialEvents_def Let_def split: option.splits)

lemma setMaterialEvent_frame [simp]:
  "scene (setMaterialEvent i ev ident h w) = scene w"
  "entity (setMaterialEvent i ev ident h w) = entity w"
  "models (setMaterialEvent i ev ident h w) = models w"
  "next_handle (setMaterialEvent i ev ident h w) = next_handle w"
  by (simp_all add: setMaterialEvent_def assets_on_def Let_def)

lemma set_mesh_material_frame [simp]:
  "scene (set_mesh_material mi v w) = scene w"
  "entity (set_mesh_material mi v w) = entity w"
  "self (set_mesh_material mi v w) = self w"
  "assets (set_mesh_material mi v w) = assets w"
  "next_handle (set_mesh_material mi v w) = next_handle w"
  "graph (models (set_mesh_material mi v w) h) = graph (models w h)"
  "m_entity (models (set_mesh_material mi v w) h) = m_entity (models w h)"
  "destroyed (models (set_mesh_material mi v w) h) = destroyed (models w h)"
  "length (meshInstances (models (set_mesh_material mi v w) h)) = length (meshInstances (models w h))"
  by (simp_all add: set_mesh_material_def update_mesh_def Let_def)

lemma handleMaterial_frame [simp]:
  "scene (handleMaterial mi i a w) = scene w"
  "entity (handleMaterial mi i a w) = entity w"
  "next_handle (handleMaterial mi i a w) = next_handle w"
  "graph (models (handleMaterial mi i a w) h) = graph (models w h)"
  "m_entity (models (handleMaterial mi i a w) h) = m_entity (models w h)"
  "destroyed (models (handleMaterial mi i a w) h) = destroyed (models w h)"
  "length (meshInstances (models (handleMaterial mi i a w) h)) = length (meshInstances (models w h))"
  by (simp_all add: handleMaterial_def assets_load_def Let_def)

lemma loadAndSet_frame [simp]:
  "scene (loadAndSetMeshInstanceMaterial r mi i w) = scene w"
  "entity (loadAndSetMeshInstanceMaterial r mi i w) = entity w"
  "next_handle (loadAndSetMeshInstanceMaterial r mi i w) = next_handle w"
  "graph (models (loadAndSetMeshInstanceMaterial r mi i w) h) = graph (models w h)"
  "m_entity (models (loadAndSetMeshInstanceMaterial r mi i w) h) = m_entity (models w h)"
  "destroyed (models (loadAndSetMeshInstanceMaterial r mi i w) h) = destroyed (models w h)"
  "length (meshInstances (models (loadAndSetMeshInstanceMaterial r mi i w) h)) = length (meshInstances (models w h))"
  by (simp_all add: loadAndSetMeshInstanceMaterial_def Let_def split: option.splits)

lemma mapping_step_frame [simp]:
  "scene (mapping_step nv am r i w) = scene w"
  "entity (mapping_step nv am r i w) = entity w"
  "next_handle (mapping_step nv am r i w) = next_handle w"
  "graph (models (mapping_step nv am r i w) h) = graph (models w h)"
  "m_entity (models (mapping_step nv am r i w) h) = m_entity (models w h)"
  "destroyed (models (mapping_step nv am r i w) h) = destroyed (models w h)"
  "length (meshInstances (models (mapping_step nv am r i w) h)) = length (meshInstances (models w h))"
  by (simp_all add: mapping_step_def split: option.splits)

lemma mapping_loop_frame [simp]:
  "scene (fold (mapping_step nv am r) is w) = scene w"
  "entity (fold (mapping_step nv am r) is w) = entity w"
  "next_handle (fold (mapping_step nv am r) is w) = next_handle w"
  "graph (models (fold (mapping_step nv am r) is w) h) = graph (models w h)"
  "m_entity (models (fold (mapping_step nv am r) is w) h) = m_entity (models w h)"
  "destroyed (models (fold (mapping_step nv am r) is w) h) = destroyed (models w h)"
  "length (meshInstances (models (fold (mapping_step nv am r) is w) h)) = length (meshInstances (models w h))"
  by (induction "is" arbitrary: w) simp_all

lemma set_mapping_frame [simp]:
  "scene (set_mapping v w) = scene w"
  "entity (set_mapping v w) = entity w"
  "next_handle (set_mapping v w) = next_handle w"
  "graph (models (set_mapping v w) h) = graph (models w h)"
  "m_entity (models (set_mapping v w) h) = m_entity (models w h)"
  "destroyed (models (set_mapping v w) h) = destroyed (models w h)"
  "length (meshInstances (models (set_mapping v w) h)) = length (meshInstances (models w h))"
  by (simp_all add: set_mapping_def Let_def split: option.splits)



lemma update_meshes_frame [simp]:
  "scene (update_meshes r f w) = scene w"
  "entity (update_meshes r f w) = entity w"
  "self (update_meshes r f w) = self w"
  "assets (update_meshes r f w) = assets w"
  "next_handle (update_meshes r f w) = next_handle w"
  "graph (models (update_meshes r f w) h) = graph (models w h)"
  "m_entity (models (update_meshes r f w) h) = m_entity (models w h)"
  "destroyed (models (update_meshes r f w) h) = destroyed (models w h)"
  "length (meshInstances (models (update_meshes r f w) h)) = length (meshInstances (models w h))"
  by (simp_all add: update_meshes_def)

lemma set_lightmapped_frame [simp]:
  "scene (set_lightmapped v w) = scene w"
  "entity (set_lightmapped v w) = entity w"
  "self (set_lightmapped v w) = (self w)\<lparr>c_lightmapped := v\<rparr>"
  "assets (set_lightmapped v w) = assets w"
  "next_handle (set_lightmapped v w) = next_handle w"
  "graph (models (set_lightmapped v w) h) = graph (models w h)"
  "m_entity (models (set_lightmapped v w) h) = m_entity (models w h)"
  "destroyed (models (set_lightmapped v w) h) = destroyed (models w h)"
  "length (meshInstances (models (set_lightmapped v w) h)) = length (meshInstances (models w h))"
  by (simp_all add: set_lightmapped_def Let_def split: option.splits)

lemma set_isStatic_frame [simp]:
  "scene (set_isStatic v w) = scene w"
  "entity (set_isStatic v w) = entity w"
  "self (set_isStatic v w) = (self w)\<lparr>c_isStatic := v\<rparr>"
  "assets (set_isStatic v w) = assets w"
  "next_handle (set_isStatic v w) = next_handle w"
  "graph (models (set_isStatic v w) h) = graph (models w h)"
  "m_entity (models (set_isStatic v w) h) = m_entity (models w h)"
  "destroyed (models (set_isStatic v w) h) = destroyed (models w h)"
  "length (meshInstances (models (set_isStatic v w) h)) = length (meshInstances (models w h))"
  by (simp_all add: set_isStatic_def Let_def split: option.splits)


lemma removeModel_frame [simp]:
  "self (removeModel m w) = self w"
  "entity (removeModel m w) = entity w"
  "assets (removeModel m w) = assets w"
  "models (removeModel m w) = models w"
  "next_handle (removeModel m w) = next_handle w"
  "sc_models (scene (removeModel m w)) = sc_models (scene w) - {m}"
  "sc_shadowCasters (scene (removeModel m w)) = sc_shadowCasters (scene w) - {m}"
  "sc_calls (scene (removeModel m w)) = sc_calls (scene w) @ [RemoveModel m]"
  by (simp_all add: removeModel_def)

lemma removeChild_frame [simp]:
  "self (removeChild n w) = self w"
  "scene (removeChild n w) = scene w"
  "assets (removeChild n w) = assets w"
  "models (removeChild n w) = models w"
  "next_handle (removeChild n w) = next_handle w"
  "e_children (entity (removeChild n w)) = e_children (entity w) - {n}"
  "e_enabled (entity (removeChild n w)) = e_enabled (entity w)"
  "e_animation (entity (removeChild n w)) = e_animation (entity w)"
  by (simp_all add: removeChild_def)

lemma addChild_frame [simp]:
  "self (addChild n w) = self w"
  "scene (addChild n w) = scene w"
  "assets (addChild n w) = assets w"
  "models (addChild n w) = models w"
  "next_handle (addChild n w) = next_handle w"
  "e_children (entity (addChild n w)) = insert n (e_children (entity w))"
  "e_enabled (entity (addChild n w)) = e_enabled (entity w)"
  "e_animation (entity (addChild n w)) = e_animation (entity w)"
  by (simp_all add: addChild_def)

lemma animation_setModel_frame [simp]:
  "self (animation_setModel m w) = self w"
  "scene (animation_setModel m w) = scene w"
  "assets (animation_setModel m w) = assets w"
  "models (animation_setModel m w) = models w"
  "next_handle (animation_setModel m w) = next_handle w"
  "e_children (entity (animation_setModel m w)) = e_children (entity w)"
  "e_enabled (entity (animation_setModel m w)) = e_enabled (entity w)"
  "e_animation (entity (animation_setModel m w)) = e_animation (entity w)"
  by (simp_all add: animation_setModel_def)

lemma set__entity_frame [simp]:
  "self (set__entity r b w) = self w"
  "scene (set__entity r b w) = scene w"
  "entity (set__entity r b w) = entity w"
  "assets (set__entity r b w) = assets w"
  "next_handle (set__entity r b w) = next_handle w"
  "graph (models (set__entity r b w) h) = graph (models w h)"
  "m_entity (models (set__entity r b w) h) = (if h = r then b else m_entity (models w h))"
  "destroyed (models (set__entity r b w) h) = destroyed (models w h)"
  "meshInstances (models (set__entity r b w) h) = meshInstances (models w h)"
  by (simp_all add: set__entity_def)

lemma model_destroy_frame [simp]:
  "self (model_destroy r w) = self w"
  "scene (model_destroy r w) = scene w"
  "entity (model_destroy r w) = entity w"
  "assets (model_destroy r w) = assets w"
  "next_handle (model_destroy r w) = next_handle w"
  "graph (models (model_destroy r w) h) = graph (models w h)"
  "m_entity (models (model_destroy r w) h) = m_entity (models w h)"
  "destroyed (models (model_destroy r w) h) =
     (if h = r then Suc (destroyed (models w h)) else destroyed (models w h))"
  "meshInstances (models (model_destroy r w) h) = meshInstances (models w h)"
  by (simp_all add: model_destroy_def)

lemma addModel_frame [simp]:
  "self (addModel mo w) = self w"
  "entity (addModel mo w) = entity w"
  "assets (addModel mo w) = assets w"
  "models (addModel mo w) = models w"
  "next_handle (addModel mo w) = next_handle w"
  "sc_models (scene (addModel mo w)) =
     (case mo of None \<Rightarrow> sc_models (scene w) | Some m \<Rightarrow> insert m (sc_models (scene w)))"
  "sc_calls (scene (addModel mo w)) = sc_calls (scene w) @ [AddModel mo]"
  by (simp_all add: addModel_def Let_def split: option.splits)

lemma set_model_null:
  assumes "c_model (self w) = Some ov"
  shows "\<not> containsModel ov (set_model None w)"
    "graph (models w ov) \<notin> e_children (entity (set_model None w))"
    "\<not> m_entity (models (set_model None w) ov)"
    "destroyed (models (set_model None w) ov) =
           (if c_clonedModel (self w) then Suc (destroyed (models w ov))
            else destroyed (models w ov))"
    "sc_calls (scene (set_model None w)) = sc_calls (scene w) @ [RemoveModel ov]"
  using assms
  by (simp_all add: set_model_def containsModel_def Let_def)

lemma set_model_other:
  assumes "c_model (self w) = Some ov" and "nv \<noteq> ov"
    and "graph (models w nv) \<noteq> graph (models w ov)"
  shows "\<not> containsModel ov (set_model (Some nv) w)"
    "graph (models w ov) \<notin> e_children (entity (set_model (Some nv) w))"
    "\<not> m_entity (models (set_model (Some nv) w) ov)"
    "destroyed (models (set_model (Some nv) w) ov) =
           (if c_clonedModel (self w) then Suc (destroyed (models w ov))
            else destroyed (models w ov))"
    "sc_calls (scene (set_model (Some nv) w)) = sc_calls (scene w) @ [RemoveModel ov] @
       (if c_enabled (self w) \<and> e_enabled (entity w) then [AddModel (Some nv)] else [])"
  using assms
  by (simp_all add: set_model_def containsModel_def Let_def)


lemma onModelAsset_None_frame [simp]:
  "models (onModelAsset None w) = models w"
  "c_model (self (onModelAsset None w)) = c_model (self w)"
  "c_type (self (onModelAsset None w)) = c_type (self w)"
  by (simp_all add: onModelAsset_def assets_off_def asset_off_def Let_def split: option.splits)

lemma set_asset_None_primitive:
  assumes "c_type (self w) \<noteq> ''asset''"
  shows "models (set_asset v w) = models w"
    "c_model (self (set_asset v w)) = c_model (self w)"
    "c_type (self (set_asset v w)) = c_type (self w)"
  using assms by (simp_all add: set_asset_def setModelAsset_def Let_def)

lemma material_update_flags [simp]:
  "map material (map (\<lambda>m. m\<lparr>castShadow := a, receiveShadow := b\<rparr>) ms) = map material ms"
  "map material (map (\<lambda>m. m\<lparr>isStatic := a\<rparr>) ms) = map material ms"
  "map material (map (\<lambda>m. m\<lparr>mi_mask := k\<rparr>) ms) = map material ms"
  "map material (map (\<lambda>m. (deleteParameter p (deleteParameter q m))
                        \<lparr>mi_shaderDef_LM := False, mi_mask := k\<rparr>) ms) = map material ms"
  by (simp_all add: deleteParameter_def)

lemma materials_set_lightmapped [simp]:
  "map material (meshInstances (models (set_lightmapped v w) h)) =
     map material (meshInstances (models w h))"
  by (simp add: set_lightmapped_def update_meshes_def deleteParameter_def Let_def
      split: option.splits)

lemma materials_set_isStatic [simp]:
  "map material (meshInstances (models (set_isStatic v w) h)) =
     map material (meshInstances (models w h))"
  by (simp add: set_isStatic_def update_meshes_def Let_def split: option.splits)

lemma materials_update_flags [simp]:
  "map material (meshInstances (models (update_meshes r
      (\<lambda>m. m\<lparr>castShadow := a, receiveShadow := b\<rparr>) w) h)) =
     map material (meshInstances (models w h))"
  by (simp add: update_meshes_def)

lemma materials_addModel [simp]:
  "map material (meshInstances (models (set__entity r b w) h)) =
     map material (meshInstances (models w h))"
  "map material (meshInstances (models (model_destroy r w) h)) =
     map material (meshInstances (models w h))"
  by simp_all

lemma set_model_primitive:
  assumes "c_type (self w) \<noteq> ''asset''"
  shows "map material (meshInstances (models (set_model nv w) h)) =
           map material (meshInstances (models w h))"
    "c_model (self (set_model nv w)) = nv"
    "c_type (self (set_model nv w)) = c_type (self w)"
  using assms by (simp_all add: set_model_def Let_def split: option.splits)

lemma primitive_Some:
  "value \<in> set primitive_types \<Longrightarrow> \<exists>p. primitive value = Some p"
  by (auto simp: primitive_types_def primitive_def)

lemma primitive_None:
  "value \<notin> set recognized_types \<Longrightarrow> primitive value = None"
  by (simp add: recognized_types_def primitive_types_def primitive_def)

lemma primitive_not_asset:
  "value \<in> set primitive_types \<Longrightarrow> value \<noteq> ''asset'' \<and> value \<noteq> []"
  by (auto simp: primitive_types_def)

lemma js_array_get_set:
  "js_array_get (js_array_set xs j v) i = (if i = j then Some v else js_array_get xs i)"
  by (auto simp: js_array_get_def js_array_set_def nth_append nth_Cons' )

lemma js_array_get_Nil [simp]: "js_array_get [] i = None"
  by (simp add: js_array_get_def)

lemma ledger_slot_setMaterialEvent:
  assumes "j \<noteq> i"
  shows "ledger_slot i (setMaterialEvent j ev ident h w) = ledger_slot i w"
proof (cases "c_materialEvents (self w)")
  case None
  with assms show ?thesis
    by (simp add: ledger_slot_def setMaterialEvent_def assets_on_def Let_def js_array_get_set)
next
  case (Some e)
  with assms show ?thesis
    by (simp add: ledger_slot_def setMaterialEvent_def assets_on_def Let_def js_array_get_set)
qed

lemma ledger_slot_frame [simp]:
  "ledger_slot i (set_mesh_material mi v w) = ledger_slot i w"
  "ledger_slot i (assets_load a w) = ledger_slot i w"
  "ledger_slot i (w\<lparr>next_fn := k\<rparr>) = ledger_slot i w"
  by (simp_all add: ledger_slot_def assets_load_def)

lemma mesh_material_set_other:
  "j \<noteq> i \<Longrightarrow>
   material (meshInstances (models (set_mesh_material (r, j) v w) r') ! i) =
     material (meshInstances (models w r') ! i)"
  by (simp add: set_mesh_material_def update_mesh_def Let_def)

lemma mesh_material_set_same:
  "i < length (meshInstances (models w r)) \<Longrightarrow>
   material (meshInstances (models (set_mesh_material (r, i) v w) r) ! i) = v"
  by (simp add: set_mesh_material_def update_mesh_def Let_def)

lemma models_frame [simp]:
  "models (assets_load a w) = models w"
  "models (w\<lparr>next_fn := k\<rparr>) = models w"
  by (simp_all add: assets_load_def)

lemma handleMaterial_other:
  assumes "j \<noteq> i"
  shows "ledger_slot i (handleMaterial (r, j) j a w) = ledger_slot i w"
    "material (meshInstances (models (handleMaterial (r, j) j a w) r') ! i) =
       material (meshInstances (models w r') ! i)"
  using assms
  by (simp_all add: handleMaterial_def Let_def ledger_slot_setMaterialEvent
      mesh_material_set_other)

lemma loadAndSet_other:
  assumes "j \<noteq> i"
  shows "ledger_slot i (loadAndSetMeshInstanceMaterial ref (r, j) j w) = ledger_slot i w"
    "material (meshInstances (models (loadAndSetMeshInstanceMaterial ref (r, j) j w) r') ! i) =
       material (meshInstances (models w r') ! i)"
  using assms
  by (simp_all add: loadAndSetMeshInstanceMaterial_def Let_def handleMaterial_other
      split: option.splits)

lemma mapping_step_other:
  assumes "j \<noteq> i"
  shows "ledger_slot i (mapping_step nv am r j w) = ledger_slot i w"
    "material (meshInstances (models (mapping_step nv am r j w) r') ! i) =
       material (meshInstances (models w r') ! i)"
  using assms
  by (simp_all add: mapping_step_def loadAndSet_other mesh_material_set_other
      split: option.splits)

lemma mapping_loop_other:
  assumes "i \<notin> set js"
  shows "ledger_slot i (fold (mapping_step nv am r) js w) = ledger_slot i w \<and>
    material (meshInstances (models (fold (mapping_step nv am r) js w) r') ! i) =
       material (meshInstances (models w r') ! i)"
  using assms
  by (induction js arbitrary: w) (simp_all add: mapping_step_other)

lemma mapping_step_unmapped:
  assumes "nv i = None"
  shows "am = None \<Longrightarrow> mapping_step nv am r i w = w"
    "am = Some a \<Longrightarrow> assetMapping_ref a i = None \<Longrightarrow>
       ledger_slot i (mapping_step nv am r i w) = ledger_slot i w"
    "am = Some a \<Longrightarrow> assetMapping_ref a i = None \<Longrightarrow>
       i < length (meshInstances (models w r)) \<Longrightarrow>
       material (meshInstances (models (mapping_step nv am r i w) r) ! i) =
         Some DEFAULT_MATERIAL"
  using assms
  by (simp_all add: mapping_step_def mesh_material_set_same split: option.splits)

lemma entries_unset_slot [simp]: "entries (assets (unset_slot es w)) = entries (assets w)"
  by (induction es arbitrary: w) (simp_all add: assets_off_def)

lemma entries_unset_slots [simp]: "entries (assets (unset_slots sl w)) = entries (assets w)"
  by (induction sl arbitrary: w) (simp_all split: option.splits)

lemma model_assetMapping_unsetMaterialEvents [simp]:
  "model_assetMapping (unsetMaterialEvents w) = model_assetMapping w"
  by (simp add: model_assetMapping_def assets_get_def unsetMaterialEvents_def Let_def
      split: option.splits)

lemma model_assetMapping_c_mapping [simp]:
  "model_assetMapping (w\<lparr>self := (self w)\<lparr>c_mapping := v\<rparr>\<rparr>) = model_assetMapping w"
  by (simp add: model_assetMapping_def assets_get_def)

lemma ledger_slot_unsetMaterialEvents [simp]: "ledger_slot i (unsetMaterialEvents w) = []"
  by (simp add: ledger_slot_def)

lemma mapping_loop_split:
  assumes "i < n"
  shows "fold f [0..<n] w = fold f [Suc i..<n] (f i (fold f [0..<i] w))"
proof -
  have "[0..<n] = [0..<i] @ i # [Suc i..<n]"
    using assms upt_add_eq_append [of 0 i "n - i"] by (simp add: upt_conv_Cons)
  then show ?thesis by simp
qed

lemma mapping_loop_no_assetMapping:
  assumes "nv i = None" and "i < n"
  shows "ledger_slot i (fold (mapping_step nv None r) [0..<n] w) = ledger_slot i w"
    "material (meshInstances (models (fold (mapping_step nv None r) [0..<n] w) r) ! i) =
       material (meshInstances (models w r) ! i)"
proof -
  let ?f = "mapping_step nv None r"
  let ?w1 = "fold ?f [0..<i] w"
  have st: "?f i ?w1 = ?w1"
    using assms(1) by (simp add: mapping_step_def)
  have f: "fold ?f [0..<n] w = fold ?f [Suc i..<n] ?w1"
    using mapping_loop_split [OF assms(2), of ?f w] st by simp
  have b: "i \<notin> set [0..<i]" and a: "i \<notin> set [Suc i..<n]" by simp_all
  show "ledger_slot i (fold ?f [0..<n] w) = ledger_slot i w"
    using mapping_loop_other [OF a, of nv None r ?w1 r] mapping_loop_other [OF b, of nv None r w r]
    by (simp only: f)
  show "material (meshInstances (models (fold ?f [0..<n] w) r) ! i) =
       material (meshInstances (models w r) ! i)"
    using mapping_loop_other [OF a, of nv None r ?w1 r] mapping_loop_other [OF b, of nv None r w r]
    by (simp only: f)
qed

lemma mapping_loop_no_entry:
  assumes "nv i = None" and "i < n" and "n = length (meshInstances (models w r))"
    and "assetMapping_ref am i = None"
  shows "ledger_slot i (fold (mapping_step nv (Some am) r) [0..<n] w) = ledger_slot i w"
    "material (meshInstances (models (fold (mapping_step nv (Some am) r) [0..<n] w) r) ! i) =
       Some DEFAULT_MATERIAL"
proof -
  let ?f = "mapping_step nv (Some am) r"
  let ?w1 = "fold ?f [0..<i] w"
  have len: "i < length (meshInstances (models ?w1 r))"
    using assms(2,3) by simp
  have st: "?f i ?w1 = set_mesh_material (r, i) (Some DEFAULT_MATERIAL) ?w1"
    using assms(1,4) by (simp add: mapping_step_def)
  have f: "fold ?f [0..<n] w = fold ?f [Suc i..<n] (?f i ?w1)"
    using mapping_loop_split [OF assms(2), of ?f w] by simp
  have b: "i \<notin> set [0..<i]" and a: "i \<notin> set [Suc i..<n]" by simp_all
  have "ledger_slot i (fold ?f [0..<n] w) = ledger_slot i (?f i ?w1)"
    using mapping_loop_other [OF a, of nv "Some am" r "?f i ?w1" r] by (simp only: f)
  also have "\<dots> = ledger_slot i ?w1" by (simp only: st ledger_slot_frame)
  also have "\<dots> = ledger_slot i w"
    using mapping_loop_other [OF b, of nv "Some am" r w r] by simp
  finally show "ledger_slot i (fold ?f [0..<n] w) = ledger_slot i w" .
  have "material (meshInstances (models (fold ?f [0..<n] w) r) ! i) =
      material (meshInstances (models (?f i ?w1) r) ! i)"
    using mapping_loop_other [OF a, of nv "Some am" r "?f i ?w1" r] by (simp only: f)
  also have "\<dots> = Some DEFAULT_MATERIAL"
    using mesh_material_set_same [OF len] by (simp only: st)
  finally show "material (meshInstances (models (fold ?f [0..<n] w) r) ! i) =
       Some DEFAULT_MATERIAL" .
qed

text \<open>Tearing down the ledger when the component holds none returns at once.\<close>

lemma unsetMaterialEvents_without_ledger:
  "c_materialEvents (self w) = None \<Longrightarrow> unsetMaterialEvents w = w"
  by (simp add: unsetMaterialEvents_def)

text \<open>\<^verbatim>\<open>_setModelAsset\<close> returns at once on the identifier that \<^verbatim>\<open>_assetOld\<close>
  remembers, and the asset setter then only stores \<^verbatim>\<open>_asset\<close>.\<close>

lemma setModelAsset_remembered_id:
  assumes "c_type (self w) = ''asset''" and "assetref_id (Some v) = Some n"
    and "c_assetOld (self w) = n"
  shows "setModelAsset (Some n) w = w \<and>
         set_asset (Some v) w = w\<lparr>self := (self w)\<lparr>c_asset := Some n\<rparr>\<rparr>"
  using assms by (auto simp: set_asset_def setModelAsset_def Let_def)

text \<open>A string that starts with a number is not a path: it is looked up as a key of the
  catalog, which finds entry 7 under \<^verbatim>\<open>"7"\<close> and nothing under \<^verbatim>\<open>"7up"\<close>.\<close>

lemma getAssetByIdOrPath_numeric_string:
  "getAssetByIdOrPath (Path ''7'') new_world = Some red_asset \<and>
   getAssetByIdOrPath (Path ''7up'') new_world = None \<and>
   getAssetByIdOrPath (Id 7) new_world = Some red_asset"
proof -
  have a: "getAssetByIdOrPath (Path ''7'') new_world = Some red_asset" by code_simp
  have b: "getAssetByIdOrPath (Path ''7up'') new_world = None" by code_simp
  have c: "getAssetByIdOrPath (Id 7) new_world = Some red_asset" by code_simp
  from a b c show ?thesis by simp
qed

text \<open>The teardown unsubscribes exactly the subscriptions whose event name and function
  the ledger records when it runs; every other subscription of the catalog stays.\<close>

lemma remove_handler_filter:
  "remove_handler n h xs = filter (\<lambda>s. \<not> (s_name s = n \<and> s_handler s = h)) xs"
  by (induction xs) simp_all

lemma callbacks_unset_slot:
  "callbacks (assets (unset_slot es w)) =
     filter (\<lambda>s. (s_name s, s_handler s) \<notin> set (map (\<lambda>e. (fst e, snd (snd e))) es))
       (callbacks (assets w))"
proof (induction es arbitrary: w)
  case Nil
  then show ?case by simp
next
  case (Cons e es)
  then show ?case
    by (auto simp: assets_off_def remove_handler_filter intro!: filter_cong)
qed

lemma callbacks_unset_slots:
  "callbacks (assets (unset_slots events w)) =
     filter (\<lambda>s. (s_name s, s_handler s) \<notin> set (ledger_recorded events)) (callbacks (assets w))"
proof (induction events arbitrary: w)
  case Nil
  then show ?case by (simp add: ledger_recorded_def)
next
  case (Cons sl sls)
  show ?case
  proof (cases sl)
    case None
    with Cons show ?thesis by (simp add: ledger_recorded_def)
  next
    case (Some es)
    with Cons show ?thesis
      by (auto simp: callbacks_unset_slot ledger_recorded_def intro!: filter_cong)
  qed
qed

lemma unsetMaterialEvents_unsubscribes_recorded:
  "callbacks (assets (unsetMaterialEvents w)) =
     (case c_materialEvents (self w) of
        None \<Rightarrow> callbacks (assets w)
      | Some events \<Rightarrow>
          filter (\<lambda>s. (s_name s, s_handler s) \<notin> set (ledger_recorded events))
            (callbacks (assets w)))"
  by (simp add: unsetMaterialEvents_def callbacks_unset_slots Let_def split: option.splits)

section \<open>The claims\<close>

text \<open>C1. When the model property is set while an old instance \<open>ov\<close> is bound, and the new
  value is null or another instance (with another graph root), then afterwards the old
  instance is not in the scene, its graph root is not a child of the entity, its back-reference
  to the entity is unlinked, and it has been destroyed once if \<^verbatim>\<open>_clonedModel\<close> was set
  and not at all otherwise. The scene has been called with \<^verbatim>\<open>removeModel\<close> for it once.\<close>

theorem set_model_detaches_old:
  assumes "c_model (self w) = Some ov"
    and "case newValue of None \<Rightarrow> True
         | Some nv \<Rightarrow> nv \<noteq> ov \<and> graph (models w nv) \<noteq> graph (models w ov)"
  shows "\<not> containsModel ov (set_model newValue w) \<and>
         graph (models w ov) \<notin> e_children (entity (set_model newValue w)) \<and>
         \<not> m_entity (models (set_model newValue w) ov) \<and>
         destroyed (models (set_model newValue w) ov) =
           (if c_clonedModel (self w) then Suc (destroyed (models w ov))
            else destroyed (models w ov)) \<and>
         sc_calls (scene (set_model newValue w)) =
           sc_calls (scene w) @ [RemoveModel ov] @
             (case newValue of
                None \<Rightarrow> []
              | Some nv \<Rightarrow>
                  if c_enabled (self w) \<and> e_enabled (entity w) then [AddModel newValue] else [])"
proof (cases newValue)
  case None
  with set_model_null [OF assms(1)] show ?thesis by simp
next
  case (Some nv)
  with assms(2) have "nv \<noteq> ov" and "graph (models w nv) \<noteq> graph (models w ov)"
    by simp_all
  from set_model_other [OF assms(1) this] Some show ?thesis by simp
qed

theorem set_model_detaches_old_witness:
  "c_model (self bound_world) = Some 100 \<and> c_clonedModel (self bound_world) \<and>
   containsModel 100 bound_world \<and>
   graph (models bound_world 100) \<in> e_children (entity bound_world) \<and>
   destroyed (models bound_world 100) = 0 \<and>
   \<not> containsModel 100 (set_model None bound_world) \<and>
   graph (models bound_world 100) \<notin> e_children (entity (set_model None bound_world)) \<and>
   \<not> m_entity (models (set_model None bound_world) 100) \<and>
   destroyed (models (set_model None bound_world) 100) = 1 \<and>
   c_model (self in_scene_world) = Some 10 \<and> \<not> c_clonedModel (self in_scene_world) \<and>
   \<not> containsModel 10 (set_model (Some 11) in_scene_world) \<and>
   destroyed (models (set_model (Some 11) in_scene_world) 10) = 0"
proof -
  have a: "c_model (self bound_world) = Some 100" by code_simp
  have b: "c_clonedModel (self bound_world)" by code_simp
  have c: "containsModel 100 bound_world" by code_simp
  have d: "graph (models bound_world 100) \<in> e_children (entity bound_world)" by code_simp
  have e: "destroyed (models bound_world 100) = 0" by code_simp
  have f: "c_model (self in_scene_world) = Some 10" by (simp add: example_defs)
  have g: "case Some (11::nat) of None \<Rightarrow> True
     | Some nv \<Rightarrow> nv \<noteq> 10 \<and>
         graph (models in_scene_world nv) \<noteq> graph (models in_scene_world 10)"
    by (simp add: example_defs)
  have h: "\<not> c_clonedModel (self in_scene_world)" "destroyed (models in_scene_world 10) = 0"
    by (simp_all add: example_defs)
  from set_model_detaches_old [OF a, of None] set_model_detaches_old [OF f g] a b c d e f h
  show ?thesis by simp
qed

text \<open>C2. Setting the model reference to its current value is not a no-op when the
  catalog has no entry for the identifier. \<^verbatim>\<open>_setModelAsset\<close> compares the identifier
  with \<^verbatim>\<open>_assetOld\<close>, which stays 0 while no entry is found. After \<^verbatim>\<open>asset = 42\<close> the
  property holds 42 and one one-shot \<^verbatim>\<open>add:42\<close> subscription stands; \<^verbatim>\<open>asset = 42\<close>
  again passes the comparison and subscribes a second one. When the entry is registered both
  are delivered: the model is cloned twice, and the first clone is bound, taken out of the
  scene again and destroyed.\<close>

theorem set_asset_twice_resubscribes:
  "c_asset (self asked_once_world) = Some 42 \<and>
   c_assetOld (self asked_once_world) = 0 \<and>
   callbacks (assets asked_once_world) =
     [\<lparr>s_name = Ev ''add'' (Id 42), s_handler = OnModelAsset, s_once = True\<rparr>] \<and>
   c_asset (self asked_twice_world) = Some 42 \<and>
   callbacks (assets asked_twice_world) =
     [\<lparr>s_name = Ev ''add'' (Id 42), s_handler = OnModelAsset, s_once = True\<rparr>,
      \<lparr>s_name = Ev ''add'' (Id 42), s_handler = OnModelAsset, s_once = True\<rparr>] \<and>
   delivered (assets answered_world) =
     [(Ev ''add'' (Id 42), OnModelAsset), (Ev ''add'' (Id 42), OnModelAsset)] \<and>
   sc_calls (scene answered_world) =
     [AddModel (Some 100), RemoveModel 100, AddModel (Some 101)] \<and>
   destroyed (models answered_world 100) = 1 \<and>
   c_model (self answered_world) = Some 101"
proof -
  have a: "c_asset (self asked_once_world) = Some 42" by code_simp
  have b: "c_assetOld (self asked_once_world) = 0" by code_simp
  have c: "callbacks (assets asked_once_world) =
     [\<lparr>s_name = Ev ''add'' (Id 42), s_handler = OnModelAsset, s_once = True\<rparr>]"
    by code_simp
  have d: "c_asset (self asked_twice_world) = Some 42" by code_simp
  have e: "callbacks (assets asked_twice_world) =
     [\<lparr>s_name = Ev ''add'' (Id 42), s_handler = OnModelAsset, s_once = True\<rparr>,
      \<lparr>s_name = Ev ''add'' (Id 42), s_handler = OnModelAsset, s_once = True\<rparr>]"
    by code_simp
  have f: "delivered (assets answered_world) =
     [(Ev ''add'' (Id 42), OnModelAsset), (Ev ''add'' (Id 42), OnModelAsset)]"
    by code_simp
  have g: "sc_calls (scene answered_world) =
     [AddModel (Some 100), RemoveModel 100, AddModel (Some 101)]"
    by code_simp
  have h: "destroyed (models answered_world 100) = 1" by code_simp
  have i: "c_model (self answered_world) = Some 101" by code_simp
  from a b c d e f g h i show ?thesis by simp
qed

text \<open>C3. A mapping entry that resolves to no catalog entry: \<^verbatim>\<open>_loadAndSetMeshInstanceMaterial\<close>
  returns before it reaches the branch that would apply the default material and subscribe
  the late-registration handler, so it leaves the world as it is. With the table that sends
  mesh 2 to the path \<^verbatim>\<open>red.mat\<close>, mesh 2 keeps the material of the loaded model, nothing
  is subscribed, and registering an entry at that path afterwards calls no handler and
  changes no material.\<close>

theorem loadAndSet_unresolved_returns:
  assumes "getAssetByIdOrPath ref w = None"
  shows "loadAndSetMeshInstanceMaterial ref mi i w = w"
  using assms by (simp add: loadAndSetMeshInstanceMaterial_def)

theorem loadAndSet_unresolved_returns_witness:
  "getAssetByIdOrPath (Path ''red.mat'') bound_world = None \<and>
   loadAndSetMeshInstanceMaterial (Path ''red.mat'') (100, 2) 2 bound_world = bound_world \<and>
   map material (meshInstances (models bound_world 100)) = [Some 5, Some 5, Some 5, Some 5] \<and>
   map material (meshInstances (models path_mapped_world 100)) =
     [Some 5, Some 5, Some 5, Some 5] \<and>
   callbacks (assets path_mapped_world) = [] \<and>
   c_materialEvents (self path_mapped_world) = None \<and>
   getMaterialAssetUrl ''red.mat'' path_mapped_world = Some ''models/red.mat'' \<and>
   getByUrl ''models/red.mat'' late_world = Some late_asset \<and>
   map material (meshInstances (models late_world 100)) = [Some 5, Some 5, Some 5, Some 5] \<and>
   delivered (assets late_world) = []"
proof -
  have a: "getAssetByIdOrPath (Path ''red.mat'') bound_world = None" by code_simp
  have b: "map material (meshInstances (models bound_world 100)) =
      [Some 5, Some 5, Some 5, Some 5]" by code_simp
  have c: "map material (meshInstances (models path_mapped_world 100)) =
      [Some 5, Some 5, Some 5, Some 5]" by code_simp
  have d: "callbacks (assets path_mapped_world) = []" by code_simp
  have e: "c_materialEvents (self path_mapped_world) = None" by code_simp
  have f: "getMaterialAssetUrl ''red.mat'' path_mapped_world = Some ''models/red.mat''"
    by code_simp
  have g: "getByUrl ''models/red.mat'' late_world = Some late_asset" by code_simp
  have h: "map material (meshInstances (models late_world 100)) =
      [Some 5, Some 5, Some 5, Some 5]" by code_simp
  have i: "delivered (assets late_world) = []" by code_simp
  from loadAndSet_unresolved_returns [OF a] a b c d e f g h i show ?thesis by simp
qed

text \<open>C4. Applying the mapping on a component of type asset with a bound model, at a mesh
  index that the mapping table has no entry for. When the model asset declares a mapping
  table that holds no material and no path for the index, the mesh's material is the default
  material afterwards and the ledger records no subscription for the index. When no mapping
  table is declared at all (or no model asset is found), the loop does nothing at the index:
  the mesh keeps its material, and the ledger records no subscription for the index.\<close>

theorem set_mapping_unmapped_index:
  assumes "c_type (self w) = ''asset''" and "c_model (self w) = Some r"
    and "i < length (meshInstances (models w r))"
    and "mapping_table newValue i = None"
  shows "(case model_assetMapping w of
            None \<Rightarrow>
              ledger_slot i (set_mapping newValue w) = [] \<and>
              material (meshInstances (models (set_mapping newValue w) r) ! i) =
                material (meshInstances (models w r) ! i)
          | Some am \<Rightarrow>
              assetMapping_ref am i = None \<longrightarrow>
                ledger_slot i (set_mapping newValue w) = [] \<and>
                material (meshInstances (models (set_mapping newValue w) r) ! i) =
                  Some DEFAULT_MATERIAL)"
proof -
  let ?w2 = "unsetMaterialEvents (w\<lparr>self := (self w)\<lparr>c_mapping := newValue\<rparr>\<rparr>)"
  let ?n = "length (meshInstances (models w r))"
  let ?nv = "mapping_table newValue"
  have sm: "set_mapping newValue w =
      fold (mapping_step ?nv (model_assetMapping w) r) [0..<?n] ?w2"
    using assms(1,2) by (simp add: set_mapping_def Let_def)
  have n: "?n = length (meshInstances (models ?w2 r))" by simp
  have m0: "material (meshInstances (models ?w2 r) ! i) = material (meshInstances (models w r) ! i)"
    by simp
  have l0: "ledger_slot i ?w2 = []" by simp
  show ?thesis
  proof (cases "model_assetMapping w")
    case None
    from mapping_loop_no_assetMapping [where nv = ?nv and i = i and r = r and w = ?w2,
        OF assms(4,3)] show ?thesis
      by (simp only: sm None m0 l0 option.case simp_thms)
  next
    case (Some am)
    have "assetMapping_ref am i = None \<Longrightarrow>
        ledger_slot i (set_mapping newValue w) = [] \<and>
        material (meshInstances (models (set_mapping newValue w) r) ! i) = Some DEFAULT_MATERIAL"
      using mapping_loop_no_entry [where nv = ?nv and i = i and r = r and w = ?w2 and am = am,
          OF assms(4,3) n]
      by (simp only: sm Some l0 simp_thms)
    then show ?thesis by (simp only: Some option.case simp_thms) blast
  qed
qed

theorem set_mapping_unmapped_index_witness:
  "c_type (self bound_world) = ''asset'' \<and> c_model (self bound_world) = Some 100 \<and>
   1 < length (meshInstances (models bound_world 100)) \<and>
   mapping_table (Some ((\<lambda>i. None)(0 := Some (Some (Id 7))))) 1 = None \<and>
   model_assetMapping bound_world = None \<and>
   ledger_slot 1 mapped_world = [] \<and>
   material (meshInstances (models mapped_world 100) ! 1) =
     material (meshInstances (models bound_world 100) ! 1) \<and>
   c_type (self declared_world) = ''asset'' \<and> c_model (self declared_world) = Some 10 \<and>
   1 < length (meshInstances (models declared_world 10)) \<and>
   mapping_table None 1 = None \<and>
   model_assetMapping declared_world = Some [Some \<lparr>am_material = Some 7, am_path = None\<rparr>] \<and>
   assetMapping_ref [Some \<lparr>am_material = Some 7, am_path = None\<rparr>] 1 = None \<and>
   ledger_slot 1 (set_mapping None declared_world) = [] \<and>
   material (meshInstances (models (set_mapping None declared_world) 10) ! 1) =
     Some DEFAULT_MATERIAL"
proof -
  have a: "c_type (self bound_world) = ''asset''" by code_simp
  have b: "c_model (self bound_world) = Some 100" by code_simp
  have c: "1 < length (meshInstances (models bound_world 100))" by code_simp
  have d: "mapping_table (Some ((\<lambda>i. None)(0 := Some (Some (Id 7))))) 1 = None"
    by (simp add: mapping_table_def)
  have e: "model_assetMapping bound_world = None" by code_simp
  have a': "c_type (self declared_world) = ''asset''"
    and b': "c_model (self declared_world) = Some 10"
    and c': "1 < length (meshInstances (models declared_world 10))"
    and e': "model_assetMapping declared_world =
        Some [Some \<lparr>am_material = Some 7, am_path = None\<rparr>]"
    by (simp_all add: declared_world_def example_defs model_assetMapping_def truthy_id_def
        assets_get_def)
  have d': "mapping_table None 1 = None" by (simp add: mapping_table_def)
  have f': "assetMapping_ref [Some \<lparr>am_material = Some 7, am_path = None\<rparr>] 1 = None"
    by (simp add: assetMapping_ref_def js_array_get_def)
  from set_mapping_unmapped_index [OF a b c d] set_mapping_unmapped_index [OF a' b' c' d']
    a b c d e a' b' c' d' e' f'
  show ?thesis by (simp add: mapped_world_def)
qed

text \<open>The claim as the specification words it fails where the model asset declares no
  mapping table: mesh 0 of the bound clone keeps the material it was loaded with.\<close>

theorem set_mapping_keeps_material_counterexample:
  "c_type (self bound_world) = ''asset'' \<and> c_model (self bound_world) = Some 100 \<and>
   0 < length (meshInstances (models bound_world 100)) \<and>
   mapping_table None 0 = None \<and>
   model_assetMapping bound_world = None \<and>
   material (meshInstances (models (set_mapping None bound_world) 100) ! 0) = Some 5 \<and>
   Some 5 \<noteq> Some DEFAULT_MATERIAL"
proof -
  have a: "c_type (self bound_world) = ''asset''" by code_simp
  have b: "c_model (self bound_world) = Some 100" by code_simp
  have c: "0 < length (meshInstances (models bound_world 100))" by code_simp
  have d: "mapping_table None 0 = None" by (simp add: mapping_table_def)
  have e: "model_assetMapping bound_world = None" by code_simp
  have f: "material (meshInstances (models (set_mapping None bound_world) 100) ! 0) = Some 5"
    by code_simp
  have g: "Some 5 \<noteq> Some DEFAULT_MATERIAL" by (simp add: DEFAULT_MATERIAL_def)
  from a b c d e f g show ?thesis by simp
qed

text \<open>C5. A handler that the ledger has lost survives the teardown. The \<^verbatim>\<open>load\<close> handler
  of slot 0 stays subscribed after its first delivery, so a second \<^verbatim>\<open>load\<close> of the same
  asset subscribes a second \<^verbatim>\<open>remove\<close> function under the key that already records the
  first one. The teardown unsubscribes the recorded function only; the first one is still
  subscribed, and the next \<^verbatim>\<open>remove\<close> event calls it and resets the mesh's material.\<close>

theorem teardown_leaves_orphan_handler:
  "ledger_slot 0 reloaded_world =
     [(Ev ''load'' (Id 7), Id 7, LoadedMaterial 1 (100, 0) 0),
      (Ev ''remove'' (Id 7), Id 7, RemovedMaterial 3 (100, 0))] \<and>
   callbacks (assets reloaded_world) =
     [\<lparr>s_name = Ev ''load'' (Id 7), s_handler = LoadedMaterial 1 (100, 0) 0, s_once = False\<rparr>,
      \<lparr>s_name = Ev ''remove'' (Id 7), s_handler = RemovedMaterial 2 (100, 0), s_once = False\<rparr>,
      \<lparr>s_name = Ev ''remove'' (Id 7), s_handler = RemovedMaterial 3 (100, 0), s_once = False\<rparr>] \<and>
   c_materialEvents (self torn_down_world) = None \<and>
   callbacks (assets torn_down_world) =
     [\<lparr>s_name = Ev ''remove'' (Id 7), s_handler = RemovedMaterial 2 (100, 0), s_once = False\<rparr>] \<and>
   material (meshInstances (models torn_down_world 100) ! 0) = Some 99 \<and>
   delivered (assets removed_world) =
     delivered (assets torn_down_world) @ [(Ev ''remove'' (Id 7), RemovedMaterial 2 (100, 0))] \<and>
   material (meshInstances (models removed_world 100) ! 0) = Some DEFAULT_MATERIAL"
proof -
  have a: "ledger_slot 0 reloaded_world =
     [(Ev ''load'' (Id 7), Id 7, LoadedMaterial 1 (100, 0) 0),
      (Ev ''remove'' (Id 7), Id 7, RemovedMaterial 3 (100, 0))]" by code_simp
  have b: "callbacks (assets reloaded_world) =
     [\<lparr>s_name = Ev ''load'' (Id 7), s_handler = LoadedMaterial 1 (100, 0) 0, s_once = False\<rparr>,
      \<lparr>s_name = Ev ''remove'' (Id 7), s_handler = RemovedMaterial 2 (100, 0), s_once = False\<rparr>,
      \<lparr>s_name = Ev ''remove'' (Id 7), s_handler = RemovedMaterial 3 (100, 0), s_once = False\<rparr>]"
    by code_simp
  have c: "c_materialEvents (self torn_down_world) = None" by code_simp
  have d: "callbacks (assets torn_down_world) =
     [\<lparr>s_name = Ev ''remove'' (Id 7), s_handler = RemovedMaterial 2 (100, 0), s_once = False\<rparr>]"
    by code_simp
  have e: "material (meshInstances (models torn_down_world 100) ! 0) = Some 99" by code_simp
  have f: "delivered (assets removed_world) =
     delivered (assets torn_down_world) @ [(Ev ''remove'' (Id 7), RemovedMaterial 2 (100, 0))]"
    by code_simp
  have g: "material (meshInstances (models removed_world 100) ! 0) = Some DEFAULT_MATERIAL"
    by code_simp
  from a b c d e f g show ?thesis by simp
qed

text \<open>C6. For a component whose model is in the scene: switching cast-shadow from true to
  false calls \<^verbatim>\<open>removeShadowCaster\<close> once, after which the model is not a shadow caster;
  switching it from false to true calls \<^verbatim>\<open>addShadowCaster\<close>, after which it is one. In
  both cases every sub-mesh of the model carries the new flag and the draw set is the same.\<close>

theorem castShadows_flip:
  assumes "c_model (self w) = Some m" and "containsModel m w"
  shows "(c_castShadows (self w) \<and> \<not> v \<longrightarrow>
            m \<notin> sc_shadowCasters (scene (set_castShadows v w)) \<and>
            sc_calls (scene (set_castShadows v w)) =
              sc_calls (scene w) @ [RemoveShadowCaster m]) \<and>
         (\<not> c_castShadows (self w) \<and> v \<longrightarrow>
            m \<in> sc_shadowCasters (scene (set_castShadows v w)) \<and>
            sc_calls (scene (set_castShadows v w)) =
              sc_calls (scene w) @ [AddShadowCaster m]) \<and>
         map castShadow (meshInstances (models (set_castShadows v w) m)) =
           replicate (length (meshInstances (models w m))) v \<and>
         sc_models (scene (set_castShadows v w)) = sc_models (scene w)"
  using assms
  by (auto simp: set_castShadows_def containsModel_def removeShadowCaster_def
      addShadowCaster_def update_meshes_def Let_def map_replicate_const comp_def)

theorem castShadows_flip_witness:
  "c_model (self in_scene_world) = Some 10 \<and> containsModel 10 in_scene_world \<and>
   c_castShadows (self in_scene_world) \<and>
   10 \<notin> sc_shadowCasters (scene (set_castShadows False in_scene_world)) \<and>
   sc_calls (scene (set_castShadows False in_scene_world)) = [RemoveShadowCaster 10] \<and>
   map castShadow (meshInstances (models (set_castShadows False in_scene_world) 10)) =
     [False, False, False, False] \<and>
   sc_models (scene (set_castShadows False in_scene_world)) = {10}"
  using castShadows_flip [of in_scene_world 10 False]
  by (simp add: example_defs containsModel_def numeral_eq_Suc)

text \<open>C7. The type setter on a string. The empty string (the falsy value) is stored and
  nothing else happens: no error is thrown. A non-empty value outside the recognised set
  throws \<^verbatim>\<open>Invalid model type\<close>, after the type has been stored and \<^verbatim>\<open>_area\<close> cleared. A
  primitive shape never throws: the component is then bound to a newly allocated model with
  exactly one mesh instance, whose material is the component's material.\<close>

theorem set_type_outcomes:
  "(value = [] \<longrightarrow>
      set_type value w = Inr (w\<lparr>self := (self w)\<lparr>c_type := []\<rparr>\<rparr>)) \<and>
   (value \<noteq> [] \<and> value \<notin> set recognized_types \<longrightarrow>
      set_type value w =
        Inl (''Invalid model type: '' @ value,
             w\<lparr>self := (self w)\<lparr>c_type := value, c_area := None\<rparr>\<rparr>)) \<and>
   (value \<in> set primitive_types \<longrightarrow>
      (\<exists>w'. set_type value w = Inr w' \<and>
            c_model (self w') = Some (next_handle w) \<and>
            map material (meshInstances (models w' (next_handle w))) = [c_material (self w)]))"
proof (intro conjI impI)
  assume "value = []"
  then show "set_type value w = Inr (w\<lparr>self := (self w)\<lparr>c_type := []\<rparr>\<rparr>)"
    by (simp add: set_type_def)
next
  assume a: "value \<noteq> [] \<and> value \<notin> set recognized_types"
  then have "value \<noteq> ''asset''" by (auto simp: recognized_types_def)
  with a primitive_None [of "value"] show "set_type value w =
        Inl (''Invalid model type: '' @ value,
             w\<lparr>self := (self w)\<lparr>c_type := value, c_area := None\<rparr>\<rparr>)"
    by (simp add: set_type_def Let_def)
next
  assume a: "value \<in> set primitive_types"
  then obtain p where p: "primitive value = Some p" using primitive_Some by blast
  from a have na: "value \<noteq> ''asset''" "value \<noteq> []" using primitive_not_asset by blast+
  define w4 where "w4 = w\<lparr>self := (self w)\<lparr>c_type := value, c_area := Some (snd p)\<rparr>,
      models := (models w)(next_handle w :=
         \<lparr>meshInstances = [MeshInstance (next_node w) (fst p) (c_material (self w))],
          graph = next_node w, m_entity = False, destroyed = 0\<rparr>),
      next_handle := Suc (next_handle w), next_node := Suc (next_node w)\<rparr>"
  have t4: "c_type (self w4) \<noteq> ''asset''" using na by (simp add: w4_def)
  have st: "set_type value w = Inr (set_asset None (set_model (Some (next_handle w)) w4))"
    using p na by (simp add: set_type_def Let_def w4_def)
  have t5: "c_type (self (set_model (Some (next_handle w)) w4)) \<noteq> ''asset''"
    using t4 by (simp add: set_model_primitive)
  have m: "map material (meshInstances (models w4 (next_handle w))) = [c_material (self w)]"
    by (simp add: w4_def MeshInstance_def)
  show "\<exists>w'. set_type value w = Inr w' \<and>
            c_model (self w') = Some (next_handle w) \<and>
            map material (meshInstances (models w' (next_handle w))) = [c_material (self w)]"
    using st m t4 t5 by (simp add: set_asset_None_primitive set_model_primitive)
qed

theorem set_type_outcomes_witness:
  "set_type [] new_world = Inr (new_world\<lparr>self := (self new_world)\<lparr>c_type := []\<rparr>\<rparr>) \<and>
   ''teapot'' \<noteq> [] \<and> ''teapot'' \<notin> set recognized_types \<and>
   set_type ''teapot'' new_world =
     Inl (''Invalid model type: teapot'',
          new_world\<lparr>self := (self new_world)\<lparr>c_type := ''teapot'', c_area := None\<rparr>\<rparr>) \<and>
   ''box'' \<in> set primitive_types \<and>
   (\<exists>w'. set_type ''box'' new_world = Inr w' \<and> c_model (self w') = Some 100 \<and>
         map material (meshInstances (models w' 100)) = [None]) \<and>
   ''sphere'' \<in> set primitive_types \<and> c_material (self painted_world) = Some 5 \<and>
   (\<exists>w'. set_type ''sphere'' painted_world = Inr w' \<and> c_model (self w') = Some 100 \<and>
         map material (meshInstances (models w' 100)) = [Some 5])"
  using set_type_outcomes [of "[]" new_world] set_type_outcomes [of "''teapot''" new_world]
    set_type_outcomes [of "''box''" new_world] set_type_outcomes [of "''sphere''" painted_world]
  by (simp add: recognized_types_def primitive_types_def new_world_def ModelComponent_def
      painted_world_def)

text \<open>The claim as the specification words it fails at the empty string: it is outside
  the recognised set and the setter returns normally.\<close>

theorem set_type_empty_counterexample:
  "[] \<notin> set recognized_types \<and>
   set_type [] new_world = Inr (new_world\<lparr>self := (self new_world)\<lparr>c_type := []\<rparr>\<rparr>)"
  by (simp add: recognized_types_def primitive_types_def set_type_def)

text \<open>C8. With the component and its entity enabled, a change of the batch group from a
  grouped value (at least 0) to an ungrouped one (below 0) leaves the bound model in the
  scene's draw set; any other change of the batch group leaves the scene as it is.\<close>

theorem batchGroupId_readds_model:
  assumes "c_enabled (self w)" and "e_enabled (entity w)"
  shows "(0 \<le> c_batchGroupId (self w) \<and> newValue < 0 \<and> c_model (self w) = Some m \<longrightarrow>
            containsModel m (set_batchGroupId newValue w)) \<and>
         (\<not> (0 \<le> c_batchGroupId (self w) \<and> newValue < 0) \<longrightarrow>
            scene (set_batchGroupId newValue w) = scene w)"
  using assms by (auto simp: set_batchGroupId_def addModel_def containsModel_def Let_def)

theorem batchGroupId_readds_model_witness:
  "c_enabled (self grouped_world) \<and> e_enabled (entity grouped_world) \<and>
   0 \<le> c_batchGroupId (self grouped_world) \<and> (- 1 :: int) < 0 \<and>
   c_model (self grouped_world) = Some 10 \<and>
   \<not> containsModel 10 grouped_world \<and>
   containsModel 10 (set_batchGroupId (- 1) grouped_world) \<and>
   scene (set_batchGroupId 5 grouped_world) = scene grouped_world"
  using batchGroupId_readds_model [of grouped_world "- 1" 10]
    batchGroupId_readds_model [of grouped_world 5 10]
  by (simp add: example_defs containsModel_def)

text \<open>C9. The material-asset setter stores the new value in \<^verbatim>\<open>_materialAsset\<close> before it
  compares that field with the identifier computed from the value. For null the catalog's
  subscriptions stay as they are; for a numeric identifier the only change is one appended
  one-shot \<^verbatim>\<open>add\<close> subscription: nothing is unsubscribed and no \<^verbatim>\<open>load\<close>,
  \<^verbatim>\<open>unload\<close> or \<^verbatim>\<open>remove\<close> subscription is made. For an asset object the block runs:
  the four method subscriptions under the object's identifier are dropped and, when that
  identifier is not 0, \<^verbatim>\<open>load\<close>, \<^verbatim>\<open>unload\<close> and \<^verbatim>\<open>remove\<close> are subscribed.\<close>

theorem materialAsset_compare_after_store:
  "(case value of
      None \<Rightarrow> callbacks (assets (set_materialAsset value w)) = callbacks (assets w)
    | Some v \<Rightarrow>
        (case v of
           AssetId n \<Rightarrow>
             callbacks (assets (set_materialAsset value w)) =
               callbacks (assets w) @
                 [\<lparr>s_name = Ev ''add'' (Id n), s_handler = OnMaterialAssetAdd, s_once = True\<rparr>]
         | AssetObj a \<Rightarrow>
             callbacks (assets (set_materialAsset value w)) =
               remove_handler (Ev ''remove'' (Id (a_id a))) OnMaterialAssetRemove
                 (remove_handler (Ev ''unload'' (Id (a_id a))) OnMaterialAssetUnload
                   (remove_handler (Ev ''load'' (Id (a_id a))) OnMaterialAssetLoad
                     (remove_handler (Ev ''add'' (Id (a_id a))) OnMaterialAssetAdd
                        (callbacks (assets w))))) @
               (if a_id a \<noteq> 0 then
                  [\<lparr>s_name = Ev ''load'' (Id (a_id a)), s_handler = OnMaterialAssetLoad,
                    s_once = False\<rparr>,
                   \<lparr>s_name = Ev ''unload'' (Id (a_id a)), s_handler = OnMaterialAssetUnload,
                    s_once = False\<rparr>,
                   \<lparr>s_name = Ev ''remove'' (Id (a_id a)), s_handler = OnMaterialAssetRemove,
                    s_once = False\<rparr>]
                else []) @
               [\<lparr>s_name = Ev ''add'' (Id (a_id a)), s_handler = OnMaterialAssetAdd,
                 s_once = True\<rparr>]))"
  by (auto simp: set_materialAsset_def assetref_id_def materialAsset_differs_def
      truthy_assetref_def truthy_id_def assets_once_def assets_on_def assets_off_def
      onMaterialAssetRemove_def Let_def
      split: option.splits assetref.splits)

theorem materialAsset_compare_after_store_witness:
  "callbacks (assets (set_materialAsset None new_world)) = [] \<and>
   callbacks (assets (set_materialAsset (Some (AssetId 7)) new_world)) =
     [\<lparr>s_name = Ev ''add'' (Id 7), s_handler = OnMaterialAssetAdd, s_once = True\<rparr>] \<and>
   callbacks (assets (set_materialAsset (Some (AssetObj red_asset)) new_world)) =
     [\<lparr>s_name = Ev ''load'' (Id 7), s_handler = OnMaterialAssetLoad, s_once = False\<rparr>,
      \<lparr>s_name = Ev ''unload'' (Id 7), s_handler = OnMaterialAssetUnload, s_once = False\<rparr>,
      \<lparr>s_name = Ev ''remove'' (Id 7), s_handler = OnMaterialAssetRemove, s_once = False\<rparr>,
      \<lparr>s_name = Ev ''add'' (Id 7), s_handler = OnMaterialAssetAdd, s_once = True\<rparr>]"
  using materialAsset_compare_after_store [of None new_world]
    materialAsset_compare_after_store [of "Some (AssetId 7)" new_world]
    materialAsset_compare_after_store [of "Some (AssetObj red_asset)" new_world]
  by (simp add: example_defs)

text \<open>C10. On a change of the batch group from grouped to ungrouped with the component and
  its entity enabled, the setter calls the scene's \<^verbatim>\<open>addModel\<close> with the content of
  \<^verbatim>\<open>_model\<close>, whatever it is: with null when no model is bound.\<close>

theorem batchGroupId_addModel_unguarded:
  assumes "c_enabled (self w)" and "e_enabled (entity w)"
    and "0 \<le> c_batchGroupId (self w)" and "newValue < 0"
  shows "sc_calls (scene (set_batchGroupId newValue w)) =
           sc_calls (scene w) @ [AddModel (c_model (self w))] \<and>
         (c_model (self w) = None \<longrightarrow>
            sc_calls (scene (set_batchGroupId newValue w)) =
              sc_calls (scene w) @ [AddModel None])"
  using assms by (auto simp: set_batchGroupId_def addModel_def Let_def split: option.splits)

theorem batchGroupId_addModel_unguarded_witness:
  "c_enabled (self grouped_empty_world) \<and> e_enabled (entity grouped_empty_world) \<and>
   0 \<le> c_batchGroupId (self grouped_empty_world) \<and> (- 1 :: int) < 0 \<and>
   c_model (self grouped_empty_world) = None \<and>
   sc_calls (scene (set_batchGroupId (- 1) grouped_empty_world)) = [AddModel None]"
  using batchGroupId_addModel_unguarded [of grouped_empty_world "- 1"]
  by (simp add: example_defs)

end
